theory Spec2Isabelle
  imports Main "HOL-Library.Sublist" "HOL-Library.Char_ord" "HOL-Library.List_Lexorder"
    "HOL-Library.Multiset"
begin

section \<open>Python string operations used by rWeb\<close>

text \<open>
  A Python \<open>str\<close> is modelled as a HOL \<open>string\<close>; a \<open>char\<close> stands for a code point
  below 256 (a byte, for \<open>bytes\<close> values). Only the operations the two programs call are
  modelled, each after the behaviour of CPython on such strings.
\<close>

text \<open>\<open>str.isspace\<close> on one character: the white-space code points below 256.\<close>

definition py_isspace :: "char \<Rightarrow> bool" where
  "py_isspace c =
     (let n = (of_char c :: nat)
      in (9 \<le> n \<and> n \<le> 13) \<or> (28 \<le> n \<and> n \<le> 32) \<or> n = 133 \<or> n = 160)"

text \<open>\<open>s.strip()\<close>: white space removed at both ends.\<close>

definition py_strip :: "string \<Rightarrow> string" where
  "py_strip s = rev (dropWhile py_isspace (rev (dropWhile py_isspace s)))"

text \<open>\<open>s.startswith(p)\<close> and \<open>s.endswith(p)\<close>.\<close>

definition startswith :: "'a list \<Rightarrow> 'a list \<Rightarrow> bool" where
  "startswith s p = prefix p s"

definition endswith :: "'a list \<Rightarrow> 'a list \<Rightarrow> bool" where
  "endswith s p = suffix p s"

text \<open>
  \<open>split_first sep s\<close> finds the leftmost occurrence of \<open>sep\<close> in \<open>s\<close> and returns the
  text before it and the text after it (\<open>s.partition(sep)\<close> without the middle), or \<open>None\<close>
  when \<open>sep\<close> does not occur.
\<close>

fun split_first :: "'a list \<Rightarrow> 'a list \<Rightarrow> ('a list \<times> 'a list) option" where
  "split_first sep [] = (if sep = [] then Some ([], []) else None)"
| "split_first sep (c # cs) =
     (if prefix sep (c # cs) then Some ([], drop (length sep) (c # cs))
      else map_option (\<lambda>(a, b). (c # a, b)) (split_first sep cs))"

text \<open>\<open>sub in s\<close>.\<close>

definition py_in :: "'a list \<Rightarrow> 'a list \<Rightarrow> bool" where
  "py_in sub s = (split_first sub s \<noteq> None)"

lemma split_first_shorter:
  "split_first sep s = Some (a, b) \<Longrightarrow> sep \<noteq> [] \<Longrightarrow> length b < length s"
proof (induction s arbitrary: a)
  case Nil
  then show ?case by simp
next
  case (Cons c cs)
  show ?case
  proof (cases "prefix sep (c # cs)")
    case True
    with Cons.prems show ?thesis by auto
  next
    case False
    with Cons.prems obtain a' where "split_first sep cs = Some (a', b)"
      by (auto split: prod.splits)
    with Cons.IH Cons.prems(2) show ?thesis by fastforce
  qed
qed

text \<open>
  \<open>s.split(sep)\<close> for a non-empty separator: the pieces between the non-overlapping
  occurrences of \<open>sep\<close>, leftmost first. Python raises \<open>ValueError\<close> on an empty separator;
  every call in the programs passes a one-character literal, and the model returns \<open>[s]\<close>
  there.
\<close>

function py_split :: "'a list \<Rightarrow> 'a list \<Rightarrow> 'a list list" where
  "py_split sep s =
     (if sep = [] then [s]
      else case split_first sep s of
             None \<Rightarrow> [s]
           | Some (a, b) \<Rightarrow> a # py_split sep b)"
  by pat_completeness auto
termination
  by (relation "measure (\<lambda>(sep, s). length s)") (auto dest: split_first_shorter)

declare py_split.simps [simp del]

text \<open>\<open>s.split(sep, 1)\<close>: at most one split, at the leftmost occurrence.\<close>

definition py_split1 :: "'a list \<Rightarrow> 'a list \<Rightarrow> 'a list list" where
  "py_split1 sep s = (case split_first sep s of None \<Rightarrow> [s] | Some (a, b) \<Rightarrow> [a, b])"

text \<open>
  \<open>s.replace(old, new)\<close>: every non-overlapping occurrence of \<open>old\<close>, leftmost first, is
  replaced. For an empty \<open>old\<close> Python puts \<open>new\<close> before every character and at the end.
\<close>

function py_replace :: "'a list \<Rightarrow> 'a list \<Rightarrow> 'a list \<Rightarrow> 'a list" where
  "py_replace old new s =
     (if old = [] then new @ concat (map (\<lambda>c. c # new) s)
      else case split_first old s of
             None \<Rightarrow> s
           | Some (a, b) \<Rightarrow> a @ new @ py_replace old new b)"
  by pat_completeness auto
termination
  by (relation "measure (\<lambda>(old, new, s). length s)") (auto dest: split_first_shorter)

declare py_replace.simps [simp del]



section \<open>Client: the page-list parser\<close>

text \<open>
  \<open>LXMFHTMLBrowser._parse_page_list\<close> (rWeb\_client.py). The body of the \<open>for\<close> loop is
  \<open>parse_line\<close>, which returns the list \<open>pages\<close> after the line has been handled; the loop
  is \<open>parse_lines\<close>. No operation of the body raises on a \<open>str\<close>, so the \<open>except\<close> branch
  is never taken.
\<close>

definition parse_line :: "string list \<Rightarrow> string \<Rightarrow> string list" where
  "parse_line pages line0 =
     (let line = py_strip line0 in
      if startswith line ''['' \<and> py_in '']'' line then
        let parts = py_split1 '']'' line in
        if length parts > 1 then
          let page_info = py_strip (parts ! 1) in
          if py_in ''('' page_info then
            let page_name = py_strip (hd (py_split ''('' page_info)) in
            if page_name \<noteq> [] then pages @ [page_name] else pages
          else pages
        else pages
      else pages)"

fun parse_lines :: "string list \<Rightarrow> string list \<Rightarrow> string list" where
  "parse_lines pages [] = pages"
| "parse_lines pages (line # lines) = parse_lines (parse_line pages line) lines"

definition parse_page_list :: "string \<Rightarrow> string list" where
  "parse_page_list text = parse_lines [] (py_split [CHR 0x0A] text)"

text \<open>
  The parser as section 4.5 of the specification words it: per line, trim; the line must
  begin with \<open>[\<close> and contain \<open>]\<close>; the descriptor is what follows the first \<open>]\<close>; if the
  descriptor contains \<open>(\<close>, the page name is the trimmed text before the first \<open>(\<close>;
  non-empty names are collected in order.
\<close>

definition spec_page_name :: "string \<Rightarrow> string option" where
  "spec_page_name l =
     (let t = py_strip l in
      if t \<noteq> [] \<and> hd t = CHR ''['' \<and> CHR '']'' \<in> set t then
        let descriptor = tl (dropWhile (\<lambda>c. c \<noteq> CHR '']'') t) in
        if CHR ''('' \<in> set descriptor
        then Some (py_strip (takeWhile (\<lambda>c. c \<noteq> CHR ''('') descriptor))
        else None
      else None)"

definition spec_page_names :: "string \<Rightarrow> string list" where
  "spec_page_names text =
     filter (\<lambda>n. n \<noteq> []) (List.map_filter spec_page_name (py_split [CHR 0x0A] text))"

text \<open>\<open>s.lower()\<close>: the upper-case letters below 256 are A-Z and the Latin-1 capitals.\<close>

definition py_lower_char :: "char \<Rightarrow> char" where
  "py_lower_char c =
     (let n = (of_char c :: nat)
      in if (65 \<le> n \<and> n \<le> 90) \<or> (192 \<le> n \<and> n \<le> 222 \<and> n \<noteq> 215)
         then char_of (n + 32) else c)"

definition py_lower :: "string \<Rightarrow> string" where
  "py_lower s = map py_lower_char s"

text \<open>\<open>s.rfind(c)\<close> for a single character: the highest index of \<open>c\<close>, or \<open>-1\<close>.\<close>

definition py_rfind :: "'a list \<Rightarrow> 'a \<Rightarrow> int" where
  "py_rfind s c =
     (if c \<in> set s then int (length s - 1 - length (takeWhile (\<lambda>x. x \<noteq> c) (rev s)))
      else - 1)"

text \<open>\<open>sep.join(xs)\<close>.\<close>

fun py_join :: "'a list \<Rightarrow> 'a list list \<Rightarrow> 'a list" where
  "py_join sep [] = []"
| "py_join sep [x] = x"
| "py_join sep (x # y # ys) = x @ sep @ py_join sep (y # ys)"

text \<open>\<open>str(n)\<close> for a natural number: its decimal digits.\<close>

definition digit_char :: "nat \<Rightarrow> char" where
  "digit_char d = char_of (48 + d)"

function str_nat :: "nat \<Rightarrow> string" where
  "str_nat n = (if n < 10 then [digit_char n] else str_nat (n div 10) @ [digit_char (n mod 10)])"
  by pat_completeness auto
termination
  by (relation "measure id") auto

declare str_nat.simps [simp del]

section \<open>Paths (posixpath)\<close>

text \<open>\<open>os.path.basename(p)\<close>: \<open>i = p.rfind('/') + 1; return p[i:]\<close>.\<close>

definition basename :: "string \<Rightarrow> string" where
  "basename p = (let i = py_rfind p CHR ''/'' + 1 in drop (nat i) p)"

text \<open>
  \<open>os.path.splitext(p)\<close> (\<open>genericpath._splitext\<close> with separator \<open>/\<close>): the extension
  starts at the last dot of the last path component, unless only dots precede it there.
  \<open>splitext_loop\<close> is the \<open>while filenameIndex < dotIndex\<close> loop.
\<close>

function splitext_loop :: "string \<Rightarrow> nat \<Rightarrow> nat \<Rightarrow> string \<times> string" where
  "splitext_loop p dotIndex filenameIndex =
     (if filenameIndex < dotIndex then
        if p ! filenameIndex \<noteq> CHR ''.'' then (take dotIndex p, drop dotIndex p)
        else splitext_loop p dotIndex (filenameIndex + 1)
      else (p, []))"
  by pat_completeness auto
termination
  by (relation "measure (\<lambda>(p, dotIndex, filenameIndex). dotIndex - filenameIndex)") auto

declare splitext_loop.simps [simp del]

definition splitext :: "string \<Rightarrow> string \<times> string" where
  "splitext p =
     (let sepIndex = py_rfind p CHR ''/'';
          dotIndex = py_rfind p CHR ''.''
      in if dotIndex > sepIndex then splitext_loop p (nat dotIndex) (nat (sepIndex + 1))
         else (p, []))"

section \<open>Server (rWeb\_server.py)\<close>

subsection \<open>The pages directory\<close>

text \<open>
  The pages directory is a list of named entries, in the order \<open>os.listdir\<close> returns them.
  A regular file carries its bytes and the text that \<open>open(path, 'r', encoding='utf-8').read()\<close>
  returns for it (\<open>None\<close> when that raises, as for bytes that are not UTF-8). Opening a
  directory for reading raises.
\<close>

datatype entry = Directory | RegularFile (file_bytes: string) (file_text: "string option")

type_synonym directory = "(string \<times> entry) list"

definition listdir :: "directory \<Rightarrow> string list" where
  "listdir d = map fst d"

text \<open>
  What \<open>os.path.join(self.pages_path, name)\<close> names, for a \<open>name\<close> without \<open>/\<close>: an entry of
  the directory, the directory itself (\<open>.\<close> and the empty name) or its parent (\<open>..\<close>).
  \<open>os.path.exists\<close> holds when this is not \<open>None\<close>.
\<close>

definition dir_entry :: "directory \<Rightarrow> string \<Rightarrow> entry option" where
  "dir_entry d name =
     (if name = [] \<or> name = ''.'' \<or> name = ''..'' then Some Directory else map_of d name)"

definition read_text :: "entry option \<Rightarrow> string option" where
  "read_text e = (case e of Some (RegularFile b t) \<Rightarrow> t | _ \<Rightarrow> None)"

definition read_bytes :: "entry option \<Rightarrow> string option" where
  "read_bytes e = (case e of Some (RegularFile b t) \<Rightarrow> Some b | _ \<Rightarrow> None)"

text \<open>\<open>self.supported_extensions\<close>, and the test \<open>ext in self.supported_extensions\<close>.\<close>

definition supported_extensions :: "(string \<times> string) list" where
  "supported_extensions =
     [(''.html'', ''text/html''), (''.htm'', ''text/html''),
      (''.txt'', ''text/plain''), (''.md'', ''text/markdown''),
      (''.jpg'', ''image/jpeg''), (''.jpeg'', ''image/jpeg''), (''.png'', ''image/png''),
      (''.gif'', ''image/gif''), (''.bmp'', ''image/bmp''), (''.webp'', ''image/webp''),
      (''.zip'', ''application/zip''), (''.rar'', ''application/x-rar-compressed''),
      (''.7z'', ''application/x-7z-compressed''),
      (''.pdf'', ''application/pdf'')]"

definition ext_supported :: "string \<Rightarrow> bool" where
  "ext_supported ext = (map_of supported_extensions ext \<noteq> None)"

text \<open>
  \<open>_get_page_list\<close>: the \<open>for filename in os.listdir(...)\<close> loop is \<open>collect_files\<close>, with
  the list \<open>files\<close> as accumulator; the result is \<open>sorted(files)\<close>. Strings are ordered as
  Python orders them, lexicographically by code point.
\<close>

fun collect_files :: "string list \<Rightarrow> string list \<Rightarrow> string list" where
  "collect_files files [] = files"
| "collect_files files (filename # rest) =
     (let ext = py_lower (snd (splitext filename))
      in collect_files (if ext_supported ext then files @ [filename] else files) rest)"

definition get_page_list :: "directory \<Rightarrow> string list" where
  "get_page_list d = sort (collect_files [] (listdir d))"

subsection \<open>Messages, state and environment\<close>

datatype field_value = FieldText string | FieldFiles "(string \<times> string) list"

record lxmf_message =
  msg_destination :: string
  msg_content :: string
  msg_title :: string
  msg_fields :: "(nat \<times> field_value) list"

definition FIELD_HTML_CONTENT :: nat where "FIELD_HTML_CONTENT = 10"
definition FIELD_HTML_REQUEST :: nat where "FIELD_HTML_REQUEST = 11"
definition FIELD_FILE_ATTACHMENTS :: nat where "FIELD_FILE_ATTACHMENTS = 2"

text \<open>
  The mutable part of the server: the counter \<open>requests_served\<close>, the lines appended to
  the access log, the messages handed to \<open>message_router.handle_outbound\<close>, the destinations
  for which \<open>RNS.Transport.request_path\<close> was called, and a clock that counts the
  milliseconds spent in \<open>time.sleep\<close>.
\<close>

record server_state =
  requests_served :: nat
  access_log :: "string list"
  outbox :: "lxmf_message list"
  path_requests :: "string list"
  clock :: nat

text \<open>
  What the server reads from outside itself: the pages directory; whether
  \<open>RNS.Identity.recall\<close> returns an identity for a destination at a given clock value;
  \<open>datetime.now().strftime('%Y-%m-%d %H:%M:%S')\<close> at a clock value; whether the access log can
  be opened for appending. Texts that contain characters above code point 255 or
  floating-point formatting are taken as given: the HTML of \<open>_generate_dynamic_index\<close>, the
  text of \<open>_generate_text_index\<close>, the size string of \<open>_send_file\<close>, the icon of
  \<open>_get_file_icon\<close>, and the arrow character of the 404 page.
\<close>

record server_env =
  pages_path :: directory
  identity_known :: "string \<Rightarrow> nat \<Rightarrow> bool"
  strftime_now :: "nat \<Rightarrow> string"
  log_writable :: bool
  generate_dynamic_index :: string
  generate_text_index :: string
  size_str :: "nat \<Rightarrow> string"
  file_icon :: "string \<Rightarrow> string"
  left_arrow_char :: string

text \<open>\<open>RNS.prettyhexrep\<close> (Reticulum): the bytes in lower-case hex between angle brackets.\<close>

definition hex_digit :: "nat \<Rightarrow> char" where
  "hex_digit d = ''0123456789abcdef'' ! (d mod 16)"

definition hex_byte :: "char \<Rightarrow> string" where
  "hex_byte c = [hex_digit (of_char c div 16), hex_digit (of_char c mod 16)]"

definition prettyhexrep :: "string \<Rightarrow> string" where
  "prettyhexrep h = ''<'' @ concat (map hex_byte h) @ ''>''"

subsection \<open>Access log\<close>

text \<open>\<open>_log_access\<close>; a failure to write the log is swallowed by its \<open>except: pass\<close>.\<close>

definition log_entry :: "string \<Rightarrow> string \<Rightarrow> string \<Rightarrow> bool \<Rightarrow> string" where
  \<open>log_entry timestamp sender_hash page success =
     (let sender_short = prettyhexrep sender_hash;
          status = (if success then ''SUCCESS'' else ''FAILED'')
      in ''['' @ timestamp @ ''] '' @ sender_short @ '' requested '' @ [CHR 0x27] @ page @
         [CHR 0x27] @ '' - '' @ status @ ''\<newline>'')\<close>

definition log_access :: "server_env \<Rightarrow> server_state \<Rightarrow> string \<Rightarrow> string \<Rightarrow> bool \<Rightarrow> server_state" where
  "log_access env s sender_hash page success =
     (let timestamp = strftime_now env (clock s)
      in if log_writable env
         then s\<lparr>access_log := access_log s @ [log_entry timestamp sender_hash page success]\<rparr>
         else s)"

subsection \<open>Sending\<close>

text \<open>
  The identity lookup shared, line for line, by \<open>_send_html\<close> and \<open>_send_file\<close>: recall the
  identity; if it is not known, request a path and poll every \<open>wait_interval\<close> = 0.5 s while
  \<open>waited < max_wait\<close> = 15 s. Times are in milliseconds. The result says whether an
  identity was obtained.
\<close>

definition max_wait :: nat where "max_wait = 15000"
definition wait_interval :: nat where "wait_interval = 500"

function wait_loop :: "server_env \<Rightarrow> string \<Rightarrow> nat \<Rightarrow> server_state \<Rightarrow> bool \<times> server_state" where
  "wait_loop env dest_hash waited s =
     (if waited < max_wait then
        let s' = s\<lparr>clock := clock s + wait_interval\<rparr>;
            waited' = waited + wait_interval
        in if identity_known env dest_hash (clock s') then (True, s')
           else wait_loop env dest_hash waited' s'
      else (False, s))"
  by pat_completeness auto
termination
  by (relation "measure (\<lambda>(env, dest_hash, waited, s). max_wait - waited)")
     (auto simp: max_wait_def wait_interval_def)

declare wait_loop.simps [simp del]

definition await_identity :: "server_env \<Rightarrow> string \<Rightarrow> server_state \<Rightarrow> bool \<times> server_state" where
  "await_identity env dest_hash s =
     (if identity_known env dest_hash (clock s) then (True, s)
      else wait_loop env dest_hash 0 (s\<lparr>path_requests := path_requests s @ [dest_hash]\<rparr>))"

text \<open>
  The three \<open>LXMF.LXMessage\<close> values the server builds: by \<open>_send_html\<close>, by \<open>_send_file\<close>
  and by \<open>_send_simple_message\<close>.
\<close>

definition html_message :: "string \<Rightarrow> string \<Rightarrow> string \<Rightarrow> lxmf_message" where
  "html_message dest_hash html_content message_text =
     \<lparr>msg_destination = dest_hash, msg_content = message_text, msg_title = [],
      msg_fields = [(FIELD_HTML_CONTENT, FieldText html_content)]\<rparr>"

definition file_message :: "string \<Rightarrow> string \<Rightarrow> string \<Rightarrow> string \<Rightarrow> lxmf_message" where
  \<open>file_message dest_hash filename file_data size_text =
     \<lparr>msg_destination = dest_hash,
      msg_content = ''File: '' @ filename @ '' ('' @ size_text @ '')'',
      msg_title = filename,
      msg_fields = [(FIELD_FILE_ATTACHMENTS, FieldFiles [(filename, file_data)])]\<rparr>\<close>

definition plain_message :: "string \<Rightarrow> string \<Rightarrow> lxmf_message" where
  "plain_message dest_hash text =
     \<lparr>msg_destination = dest_hash, msg_content = text, msg_title = [], msg_fields = []\<rparr>"

text \<open>\<open>_send_html\<close>.\<close>

definition send_html :: "server_env \<Rightarrow> server_state \<Rightarrow> string \<Rightarrow> string \<Rightarrow> string \<Rightarrow> bool \<times> server_state" where
  "send_html env s dest_hash html_content message_text =
     (case await_identity env dest_hash s of
        (False, s1) \<Rightarrow> (False, s1)
      | (True, s1) \<Rightarrow>
          (True, s1\<lparr>outbox := outbox s1 @ [html_message dest_hash html_content message_text]\<rparr>))"

text \<open>
  \<open>_send_file\<close>: after the identity lookup the file is read in binary mode; when that
  raises, the \<open>except\<close> branch returns \<open>False\<close> and nothing is sent.
\<close>

definition send_file :: "server_env \<Rightarrow> server_state \<Rightarrow> string \<Rightarrow> string \<Rightarrow> bool \<times> server_state" where
  \<open>send_file env s dest_hash filename =
     (case await_identity env dest_hash s of
        (False, s1) \<Rightarrow> (False, s1)
      | (True, s1) \<Rightarrow>
          (case read_bytes (dir_entry (pages_path env) filename) of
             None \<Rightarrow> (False, s1)
           | Some file_data \<Rightarrow>
               (True, s1\<lparr>outbox := outbox s1 @
                  [file_message dest_hash filename file_data (size_str env (length file_data))]\<rparr>)))\<close>

text \<open>\<open>_send_simple_message\<close>: a single wait of 2 s after the path request.\<close>

definition send_simple_message :: "server_env \<Rightarrow> server_state \<Rightarrow> string \<Rightarrow> string \<Rightarrow> bool \<times> server_state" where
  "send_simple_message env s dest_hash text =
     (let plain = plain_message dest_hash text
      in if identity_known env dest_hash (clock s) then (True, s\<lparr>outbox := outbox s @ [plain]\<rparr>)
         else
           let s1 = s\<lparr>path_requests := path_requests s @ [dest_hash], clock := clock s + 2000\<rparr>
           in if identity_known env dest_hash (clock s1)
              then (True, s1\<lparr>outbox := outbox s1 @ [plain]\<rparr>)
              else (False, s1))"

subsection \<open>Templates and the 404 page\<close>

text \<open>\<open>_process_template\<close>.\<close>

definition process_template :: "server_env \<Rightarrow> server_state \<Rightarrow> string \<Rightarrow> string" where
  \<open>process_template env s html_content =
     (let timestamp = strftime_now env (clock s);
          files = get_page_list (pages_path env);
          file_links = map (\<lambda>filename. ''<a href="'' @ filename @ ''">'' @ file_icon env filename @
                                          '' '' @ filename @ ''</a>'') files;
          page_list_html = py_join ''<br>\<newline>'' file_links;
          html1 = py_replace ''{{timestamp}}'' timestamp html_content;
          html2 = py_replace ''{{page_list}}'' page_list_html html1
      in py_replace ''{{page_count}}'' (str_nat (length files)) html2)\<close>

text \<open>The f-string \<open>error_html\<close> of \<open>_serve_page\<close>.\<close>

definition error_html :: "string \<Rightarrow> string \<Rightarrow> string" where
  \<open>error_html arrow page_name =
     ''<!DOCTYPE html>\<newline>'' @
     ''    <html>\<newline>'' @
     ''    <head>\<newline>'' @
     ''        <meta charset="UTF-8">\<newline>'' @
     ''        <title>404 Not Found</title>\<newline>'' @
     ''        <style>\<newline>'' @
     ''            body {\<newline>'' @
     ''                font-family: monospace;\<newline>'' @
     ''                background: #1a1a1a;\<newline>'' @
     ''                color: #f00;\<newline>'' @
     ''                padding: 50px;\<newline>'' @
     ''                text-align: center;\<newline>'' @
     ''            }\<newline>'' @
     ''            h1 { font-size: 3em; text-shadow: 0 0 10px #f00; }\<newline>'' @
     ''            a {\<newline>'' @
     ''                color: #0ff;\<newline>'' @
     ''                text-decoration: none;\<newline>'' @
     ''                margin-top: 20px;\<newline>'' @
     ''                display: inline-block;\<newline>'' @
     ''                padding: 10px 20px;\<newline>'' @
     ''                border: 1px solid #0ff;\<newline>'' @
     ''                border-radius: 5px;\<newline>'' @
     ''            }\<newline>'' @
     ''            a:hover {\<newline>'' @
     ''                background: rgba(0, 255, 255, 0.2);\<newline>'' @
     ''            }\<newline>'' @
     ''        </style>\<newline>'' @
     ''    </head>\<newline>'' @
     ''    <body>\<newline>'' @
     ''        <h1>404 - File Not Found</h1>\<newline>'' @
     ''        <p>The requested file '' @ [CHR 0x27] @
     page_name @
     ''' does not exist.</p>\<newline>'' @
     ''        <a href="index">'' @
     arrow @
     '' Back to Index</a>\<newline>'' @
     ''    </body>\<newline>'' @
     ''    </html>''\<close>

subsection \<open>Serving a request\<close>

definition index_names :: "string list" where
  "index_names = [''index'', ''_index'', ''_list'', ''list'', []]"

definition is_index_request :: "string \<Rightarrow> bool" where
  "is_index_request page_name = (page_name = [] \<or> py_lower page_name \<in> set index_names)"

text \<open>
  \<open>_serve_page\<close>. The results of the send operations are not looked at by the source. The
  one statement of the \<open>try\<close> block that can raise on the modelled inputs is the text-mode
  read of an HTML file; the \<open>except\<close> branch then logs a failure.
\<close>

definition serve_page :: "server_env \<Rightarrow> server_state \<Rightarrow> string \<Rightarrow> string \<Rightarrow> bool \<times> server_state" where
  \<open>serve_page env s sender_hash page_name0 =
     (let page_name = basename page_name0 in
      if is_index_request page_name then
        let html_content = generate_dynamic_index env;
            text_index = generate_text_index env;
            s1 = snd (send_html env s sender_hash html_content ''File Index'');
            s2 = snd (send_simple_message env s1 sender_hash text_index)
        in (True, log_access env s2 sender_hash ''INDEX'' True)
      else
        let file = dir_entry (pages_path env) page_name in
        if file = None then
          let s1 = snd (send_html env s sender_hash (error_html (left_arrow_char env) page_name)
                          (''404: '' @ page_name))
          in (False, log_access env s1 sender_hash page_name False)
        else
          let ext = py_lower (snd (splitext page_name)) in
          if ext \<in> set [''.html'', ''.htm''] then
            (case read_text file of
               None \<Rightarrow> (False, log_access env s sender_hash page_name False)
             | Some html_content0 \<Rightarrow>
                 let html_content = process_template env s html_content0;
                     s1 = snd (send_html env s sender_hash html_content (''Serving: '' @ page_name));
                     s2 = log_access env s1 sender_hash page_name True
                 in (True, s2\<lparr>requests_served := requests_served s2 + 1\<rparr>))
          else
            let s1 = snd (send_file env s sender_hash page_name);
                s2 = log_access env s1 sender_hash page_name True
            in (True, s2\<lparr>requests_served := requests_served s2 + 1\<rparr>))\<close>

section \<open>Client (rWeb\_client.py)\<close>

subsection \<open>State and environment\<close>

record server_info =
  info_name :: string
  info_pages :: "string list"
  info_last_seen :: nat

datatype request_kind = ListRequest | PageRequest string

record pending_request =
  req_kind :: request_kind
  req_time :: nat

record bookmark =
  bookmark_name :: string
  bookmark_hash :: string
  bookmark_added :: nat

record history_entry =
  hist_server :: string
  hist_server_name :: string
  hist_page :: string
  hist_timestamp :: nat
  hist_is_file :: bool

datatype ui_event =
    ServerDiscovered string string nat
  | PagesUpdated string "string list"
  | HtmlReceived string string string string nat
  | FileReceived string string string string nat

text \<open>
  The attributes of \<open>LXMFHTMLBrowser\<close> that the operations below read or write, with the
  two cache directories as maps from file name to content, and what the client hands to the
  outside: the events emitted on the socket, the messages given to
  \<open>message_router.handle_outbound\<close>, the number of announces, the destinations for which a
  path was requested, and the milliseconds spent in \<open>time.sleep\<close>. \<open>lxmf_destination\<close> is the
  hash of the client's own delivery destination, \<open>None\<close> while \<open>_init_lxmf\<close> has not run.
  Times (\<open>time.time()\<close>) are whole milliseconds. The storage directory is taken to be
  writable.
\<close>

record browser_state =
  bookmarks :: "bookmark list"
  history :: "history_entry list"
  discovered_servers :: "string \<rightharpoonup> server_info"
  known_peers :: "string set"
  pending_requests :: "string \<rightharpoonup> pending_request"
  html_cache :: "string \<rightharpoonup> string"
  file_cache :: "string \<rightharpoonup> string"
  lxmf_destination :: "string option"
  socketio :: bool
  emitted :: "ui_event list"
  sent :: "lxmf_message list"
  announces :: nat
  requested_paths :: "string list"
  slept :: nat

record browser_env =
  identity_recalled :: "string \<Rightarrow> nat \<Rightarrow> bool"
  time_time :: "nat \<Rightarrow> nat"
  display_name_from_app_data :: "string \<Rightarrow> string option"
  format_size :: "nat \<Rightarrow> string"

text \<open>\<open>_save_data\<close>: the three files are rewritten; the history is cut to its last 100 entries.\<close>

definition save_data :: "browser_state \<Rightarrow> browser_state" where
  "save_data s =
     (if length (history s) > 100
      then s\<lparr>history := drop (length (history s) - 100) (history s)\<rparr>
      else s)"

subsection \<open>Discovery\<close>

text \<open>\<open>_handle_discovery\<close>.\<close>

definition presentation_name :: "string \<Rightarrow> string" where
  "presentation_name display_name =
     (let server_name = py_strip (py_replace ''[HTML]'' [] display_name)
      in if server_name = [] then ''Unknown Server'' else server_name)"

definition handle_discovery :: "browser_env \<Rightarrow> browser_state \<Rightarrow> string \<Rightarrow> string \<Rightarrow> browser_state" where
  "handle_discovery env s peer_hash_str display_name =
     (let server_name = presentation_name display_name in
      if peer_hash_str \<in> known_peers s then
        (case discovered_servers s peer_hash_str of
           Some info \<Rightarrow>
             save_data (s\<lparr>discovered_servers := (discovered_servers s)
               (peer_hash_str \<mapsto> info\<lparr>info_last_seen := time_time env (slept s)\<rparr>)\<rparr>)
         | None \<Rightarrow> s)
      else
        let s1 = s\<lparr>discovered_servers := (discovered_servers s)
                     (peer_hash_str \<mapsto> \<lparr>info_name = server_name, info_pages = [],
                                         info_last_seen = time_time env (slept s)\<rparr>),
                   known_peers := insert peer_hash_str (known_peers s)\<rparr>;
            s2 = save_data s1
        in if socketio s2
           then s2\<lparr>emitted := emitted s2 @
                  [ServerDiscovered peer_hash_str server_name (time_time env (slept s2))]\<rparr>
           else s2)"

text \<open>
  \<open>HTMLServerAnnounceHandler.received_announce\<close>. \<open>announce_match\<close> is the part up to the
  call of \<open>_handle_discovery\<close>: it returns the two arguments of that call, or \<open>None\<close> when the
  handler returns without calling it. \<open>app_data\<close> is \<open>None\<close> or bytes.
\<close>

definition announce_match :: "browser_env \<Rightarrow> browser_state \<Rightarrow> string \<Rightarrow> string option \<Rightarrow> (string \<times> string) option" where
  "announce_match env s destination_hash app_data =
     (let peer_hash_str = prettyhexrep destination_hash in
      if lxmf_destination s = Some destination_hash then None
      else case app_data of
             None \<Rightarrow> None
           | Some d \<Rightarrow>
               if d = [] then None
               else case display_name_from_app_data env d of
                      None \<Rightarrow> None
                    | Some display_name \<Rightarrow>
                        if display_name = [] then None
                        else if py_in ''[HTML]'' display_name \<or> py_in ''HTML'' display_name
                             then Some (peer_hash_str, display_name)
                             else None)"

definition received_announce :: "browser_env \<Rightarrow> browser_state \<Rightarrow> string \<Rightarrow> string option \<Rightarrow> browser_state" where
  "received_announce env s destination_hash app_data =
     (case announce_match env s destination_hash app_data of
        None \<Rightarrow> s
      | Some (peer_hash_str, display_name) \<Rightarrow> handle_discovery env s peer_hash_str display_name)"

subsection \<open>The HTML cache and the link interceptor\<close>

text \<open>The f-string \<open>inject_script\<close> of \<open>_save_html_file\<close>.\<close>

definition inject_script :: "string \<Rightarrow> string" where
  \<open>inject_script server_hash =
     ''\<newline>'' @
     ''<script>\<newline>'' @
     ''// LXMF Browser - Link Interceptor\<newline>'' @
     ''(function() {\<newline>'' @
     ''    const currentServer = '' @ [CHR 0x27] @
     server_hash @
     ''';\<newline>'' @
     ''    \<newline>'' @
     ''    document.addEventListener('DOMContentLoaded', function() {\<newline>'' @
     ''        // Intercept all clicks on links\<newline>'' @
     ''        document.addEventListener('click', function(e) {\<newline>'' @
     ''            let target = e.target;\<newline>'' @
     ''            \<newline>'' @
     ''            // Find the closest <a> tag\<newline>'' @
     ''            while (target && target.tagName !== 'A') {\<newline>'' @
     ''                target = target.parentElement;\<newline>'' @
     ''            }\<newline>'' @
     ''            \<newline>'' @
     ''            if (target && target.tagName === 'A') {\<newline>'' @
     ''                const href = target.getAttribute('href');\<newline>'' @
     ''                \<newline>'' @
     ''                // Check if it's a relative link or .html file\<newline>'' @
     ''                if (href && (href.endsWith('.html') || !href.includes('://'))) {\<newline>'' @
     ''                    e.preventDefault();\<newline>'' @
     ''                    \<newline>'' @
     ''                    // Extract page name\<newline>'' @
     ''                    let pageName = href;\<newline>'' @
     ''                    if (pageName.startsWith('./')) {\<newline>'' @
     ''                        pageName = pageName.substring(2);\<newline>'' @
     ''                    }\<newline>'' @
     ''                    if (pageName.startsWith('/')) {\<newline>'' @
     ''                        pageName = pageName.substring(1);\<newline>'' @
     ''                    }\<newline>'' @
     ''                    \<newline>'' @
     ''                    // Tell parent window to request this page from LXMF\<newline>'' @
     ''                    window.parent.postMessage({\<newline>'' @
     ''                        type: 'lxmf_navigate',\<newline>'' @
     ''                        server: currentServer,\<newline>'' @
     ''                        page: pageName\<newline>'' @
     ''                    }, '*');\<newline>'' @
     ''                }\<newline>'' @
     ''            }\<newline>'' @
     ''        }, true);\<newline>'' @
     ''    });\<newline>'' @
     ''})();\<newline>'' @
     ''</script>\<newline>''\<close>

text \<open>
  \<open>_save_html_file\<close>: \<open>inject_interceptor\<close> is the text that is written, \<open>save_html_file\<close>
  writes it under \<open>filename\<close> in the HTML cache and returns the file name.
\<close>

definition inject_interceptor :: "string \<Rightarrow> string \<Rightarrow> string" where
  \<open>inject_interceptor html_content server_hash =
     (let script = inject_script server_hash in
      if py_in ''</head>'' html_content
      then py_replace ''</head>'' (script @ ''</head>'') html_content
      else if py_in ''</body>'' html_content
      then py_replace ''</body>'' (script @ ''</body>'') html_content
      else html_content @ script)\<close>

definition save_html_file :: "browser_state \<Rightarrow> string \<Rightarrow> string \<Rightarrow> string \<Rightarrow> string \<times> browser_state" where
  "save_html_file s html_content filename server_hash =
     (filename,
      s\<lparr>html_cache := (html_cache s)(filename \<mapsto> inject_interceptor html_content server_hash)\<rparr>)"

subsection \<open>Requests\<close>

text \<open>
  \<open>bytes.fromhex\<close>: pairs of hexadecimal digits, with ASCII white space allowed between
  the pairs; \<open>None\<close> stands for \<open>ValueError\<close>.
\<close>

definition hex_value :: "char \<Rightarrow> nat option" where
  "hex_value c =
     (let n = (of_char c :: nat) in
      if 48 \<le> n \<and> n \<le> 57 then Some (n - 48)
      else if 97 \<le> n \<and> n \<le> 102 then Some (n - 87)
      else if 65 \<le> n \<and> n \<le> 70 then Some (n - 55)
      else None)"

definition ascii_space :: "char \<Rightarrow> bool" where
  "ascii_space c = (let n = (of_char c :: nat) in n = 32 \<or> (9 \<le> n \<and> n \<le> 13))"

fun fromhex :: "string \<Rightarrow> string option" where
  "fromhex [] = Some []"
| "fromhex [c] = (if ascii_space c then Some [] else None)"
| "fromhex (c # d # ds) =
     (if ascii_space c then fromhex (d # ds)
      else case (hex_value c, hex_value d) of
             (Some hi, Some lo) \<Rightarrow> map_option ((#) (char_of (hi * 16 + lo))) (fromhex ds)
           | _ \<Rightarrow> None)"

text \<open>
  The first lines of \<open>request_page\<close>: the angle brackets and the \<open>lxmf://\<close> prefix are
  removed, a path after \<open>/\<close> becomes the page name if none was given, and the default page is
  \<open>index\<close>. The result is the pair \<open>(server_hash, page_name)\<close>.
\<close>

definition normalize_request :: "string \<Rightarrow> string \<Rightarrow> string \<times> string" where
  \<open>normalize_request server_hash0 page_name0 =
     (let server_hash1 = (if startswith server_hash0 ''<'' \<and> endswith server_hash0 ''>''
                          then butlast (drop 1 server_hash0) else server_hash0);
          server_hash2 = (if startswith server_hash1 ''lxmf://'' then drop 7 server_hash1
                          else server_hash1);
          (server_hash, page_name1) =
            (if py_in ''/'' server_hash2 then
               let parts = py_split1 ''/'' server_hash2
               in (parts ! 0, if length parts > 1 \<and> page_name0 = [] then parts ! 1 else page_name0)
             else (server_hash2, page_name0));
          page_name = (if page_name1 = [] then ''index'' else page_name1)
      in (server_hash, page_name))\<close>

text \<open>
  \<open>request_page\<close>. A \<open>ValueError\<close> of \<open>bytes.fromhex\<close> is caught by the \<open>except\<close> branch, which
  returns \<open>False\<close> before anything was changed.
\<close>

definition request_page :: "browser_env \<Rightarrow> browser_state \<Rightarrow> string \<Rightarrow> string \<Rightarrow> bool \<times> browser_state" where
  \<open>request_page env s server_hash0 page_name0 =
     (case normalize_request server_hash0 page_name0 of
        (server_hash, page_name) \<Rightarrow>
          (case fromhex (py_replace '':'' [] server_hash) of
             None \<Rightarrow> (False, s)
           | Some dest_hash \<Rightarrow>
               let s1 = s\<lparr>pending_requests := (pending_requests s)
                            (server_hash \<mapsto> \<lparr>req_kind = PageRequest page_name,
                                              req_time = time_time env (slept s)\<rparr>)\<rparr>;
                   s2 = s1\<lparr>announces := announces s1 + 1, slept := slept s1 + 300\<rparr>;
                   s3 = (if identity_recalled env dest_hash (slept s2) then s2
                         else s2\<lparr>requested_paths := requested_paths s2 @ [dest_hash],
                                 slept := slept s2 + 2000\<rparr>)
               in if identity_recalled env dest_hash (slept s3)
                  then (True, s3\<lparr>sent := sent s3 @
                          [\<lparr>msg_destination = dest_hash, msg_content = ''GET:'' @ page_name,
                            msg_title = [],
                            msg_fields = [(FIELD_HTML_REQUEST, FieldText page_name)]\<rparr>]\<rparr>)
                  else (False, s3)))\<close>

text \<open>\<open>_request_page_list\<close>; it returns nothing.\<close>

definition request_page_list :: "browser_env \<Rightarrow> browser_state \<Rightarrow> string \<Rightarrow> browser_state" where
  \<open>request_page_list env s server_hash0 =
     (let server_hash = (if startswith server_hash0 ''<'' \<and> endswith server_hash0 ''>''
                         then butlast (drop 1 server_hash0) else server_hash0)
      in case fromhex (py_replace '':'' [] server_hash) of
           None \<Rightarrow> s
         | Some dest_hash \<Rightarrow>
             let s1 = s\<lparr>pending_requests := (pending_requests s)
                          (server_hash \<mapsto> \<lparr>req_kind = ListRequest,
                                            req_time = time_time env (slept s)\<rparr>)\<rparr>;
                 s2 = s1\<lparr>announces := announces s1 + 1, slept := slept s1 + 300\<rparr>;
                 s3 = (if identity_recalled env dest_hash (slept s2) then s2
                       else s2\<lparr>requested_paths := requested_paths s2 @ [dest_hash],
                               slept := slept s2 + 2000\<rparr>)
             in if identity_recalled env dest_hash (slept s3)
                then s3\<lparr>sent := sent s3 @ [plain_message dest_hash ''list'']\<rparr>
                else s3)\<close>

subsection \<open>Inbound messages\<close>

record inbound_message =
  in_source_hash :: string
  in_content :: string
  in_fields :: "(nat \<times> field_value) list"

text \<open>
  The loop over the attachments in \<open>_handle_message\<close>: each file is written to the download
  cache, entered in the history and announced to the user interface.
\<close>

fun save_attachments :: "browser_env \<Rightarrow> string \<Rightarrow> string \<Rightarrow> browser_state \<Rightarrow> (string \<times> string) list \<Rightarrow> browser_state" where
  "save_attachments env server_hash server_name s [] = s"
| "save_attachments env server_hash server_name s ((filename, file_data) # rest) =
     (let s1 = s\<lparr>file_cache := (file_cache s)(filename \<mapsto> file_data)\<rparr>;
          size_text = format_size env (length file_data);
          s2 = s1\<lparr>history := history s1 @
                  [\<lparr>hist_server = server_hash, hist_server_name = server_name,
                    hist_page = filename, hist_timestamp = time_time env (slept s1),
                    hist_is_file = True\<rparr>]\<rparr>;
          s3 = save_data s2;
          s4 = (if socketio s3
                then s3\<lparr>emitted := emitted s3 @
                       [FileReceived server_hash server_name filename size_text
                          (time_time env (slept s3))]\<rparr>
                else s3)
      in save_attachments env server_hash server_name s4 rest)"

definition attachments_of :: "field_value \<Rightarrow> (string \<times> string) list" where
  "attachments_of v = (case v of FieldFiles fs \<Rightarrow> fs | FieldText t \<Rightarrow> [])"

text \<open>
  \<open>_handle_message\<close>. A value of field 10 that is not text makes \<open>_save_html_file\<close> raise;
  the \<open>except\<close> branch then leaves the state as it was. A text in field 2 has no element
  that is a pair, so nothing is stored for it.
\<close>

definition handle_message :: "browser_env \<Rightarrow> browser_state \<Rightarrow> inbound_message \<Rightarrow> browser_state" where
  \<open>handle_message env s message =
     (let server_hash = prettyhexrep (in_source_hash message);
          content = in_content message;
          is_pending = (pending_requests s server_hash \<noteq> None);
          server_name = (case discovered_servers s server_hash of
                           Some info \<Rightarrow> info_name info | None \<Rightarrow> ''Unknown Server'')
      in
      if is_pending \<and> map_option req_kind (pending_requests s server_hash) = Some ListRequest
         \<and> py_in ''Available Pages'' content
      then
        let pages = parse_page_list content;
            s1 = (case discovered_servers s server_hash of
                    Some info \<Rightarrow>
                      let s' = save_data (s\<lparr>discovered_servers := (discovered_servers s)
                                  (server_hash \<mapsto> info\<lparr>info_pages := pages\<rparr>)\<rparr>)
                      in if socketio s'
                         then s'\<lparr>emitted := emitted s' @ [PagesUpdated server_hash pages]\<rparr>
                         else s'
                  | None \<Rightarrow> s)
        in s1\<lparr>pending_requests := (pending_requests s1)(server_hash := None)\<rparr>
      else if in_fields message \<noteq> [] \<and> map_of (in_fields message) FIELD_HTML_CONTENT \<noteq> None then
        (case map_of (in_fields message) FIELD_HTML_CONTENT of
           Some (FieldText html_content) \<Rightarrow>
             let page_name =
                   (if startswith content ''Serving:''
                    then py_strip (py_replace ''Serving:'' [] content)
                    else if py_in ''Page Index'' content \<or> py_in ''Available Pages'' content
                    then ''index.html'' else ''page.html'');
                 timestamp = time_time env (slept s) div 1000;
                 filename = str_nat timestamp @ ''_'' @ page_name;
                 (saved_filename, s1) = save_html_file s html_content filename server_hash;
                 s2 = s1\<lparr>history := history s1 @
                         [\<lparr>hist_server = server_hash, hist_server_name = server_name,
                           hist_page = page_name, hist_timestamp = time_time env (slept s1),
                           hist_is_file = False\<rparr>]\<rparr>;
                 s3 = save_data s2;
                 s4 = (if socketio s3
                       then s3\<lparr>emitted := emitted s3 @
                              [HtmlReceived server_hash server_name page_name saved_filename
                                 (time_time env (slept s3))]\<rparr>
                       else s3)
             in if is_pending \<and> pending_requests s4 server_hash \<noteq> None
                then s4\<lparr>pending_requests := (pending_requests s4)(server_hash := None)\<rparr>
                else s4
         | _ \<Rightarrow> s)
      else if in_fields message \<noteq> [] \<and> map_of (in_fields message) FIELD_FILE_ATTACHMENTS \<noteq> None then
        (case map_of (in_fields message) FIELD_FILE_ATTACHMENTS of
           Some v \<Rightarrow>
             let s1 = save_attachments env server_hash server_name s (attachments_of v)
             in if is_pending \<and> pending_requests s1 server_hash \<noteq> None
                then s1\<lparr>pending_requests := (pending_requests s1)(server_hash := None)\<rparr>
                else s1
         | None \<Rightarrow> s)
      else s)\<close>

subsection \<open>Bookmarks, history and the server list\<close>

text \<open>The routes \<open>/api/bookmark/add\<close>, \<open>/api/bookmark/remove\<close>, \<open>/api/history/clear\<close> and
  \<open>/api/server/remove\<close>.\<close>

definition add_bookmark :: "browser_env \<Rightarrow> browser_state \<Rightarrow> string \<Rightarrow> string \<Rightarrow> browser_state" where
  "add_bookmark env s name hash =
     (let entry = \<lparr>bookmark_name = name, bookmark_hash = hash,
                    bookmark_added = time_time env (slept s)\<rparr>
      in save_data (s\<lparr>bookmarks := bookmarks s @ [entry]\<rparr>))"

definition remove_bookmark :: "browser_state \<Rightarrow> string \<Rightarrow> browser_state" where
  "remove_bookmark s hash =
     save_data (s\<lparr>bookmarks := filter (\<lambda>b. bookmark_hash b \<noteq> hash) (bookmarks s)\<rparr>)"

definition clear_history :: "browser_state \<Rightarrow> browser_state" where
  "clear_history s = save_data (s\<lparr>history := []\<rparr>)"

definition remove_server :: "browser_state \<Rightarrow> string \<Rightarrow> browser_state" where
  "remove_server s server_hash =
     save_data (s\<lparr>discovered_servers := (discovered_servers s)(server_hash := None),
                  known_peers := known_peers s - {server_hash}\<rparr>)"

subsection \<open>Reachable client states\<close>

text \<open>
  When \<open>__init__\<close> has run, bookmarks, history and servers are whatever the files held, the
  known peers are the keys of the server map, and no request is pending. Every state the
  client reaches later comes from such a state by the callbacks and the routes above.
\<close>

definition started :: "browser_state \<Rightarrow> bool" where
  "started s \<longleftrightarrow> pending_requests s = Map.empty \<and> known_peers s = dom (discovered_servers s)"

inductive reachable :: "browser_env \<Rightarrow> browser_state \<Rightarrow> bool" for env :: browser_env where
  start: "started s \<Longrightarrow> reachable env s"
| announce: "reachable env s \<Longrightarrow> reachable env (received_announce env s destination_hash app_data)"
| message: "reachable env s \<Longrightarrow> reachable env (handle_message env s m)"
| page: "reachable env s \<Longrightarrow> reachable env (snd (request_page env s server_hash page_name))"
| page_list: "reachable env s \<Longrightarrow> reachable env (request_page_list env s server_hash)"
| bookmark_add: "reachable env s \<Longrightarrow> reachable env (add_bookmark env s name hash)"
| bookmark_remove: "reachable env s \<Longrightarrow> reachable env (remove_bookmark s hash)"
| history_clear: "reachable env s \<Longrightarrow> reachable env (clear_history s)"
| server_remove: "reachable env s \<Longrightarrow> reachable env (remove_server s server_hash)"

text \<open>
  The keys of the pending map written by the two request operations have passed
  \<open>bytes.fromhex\<close>, so they hold no angle bracket.
\<close>

definition keys_plain :: "browser_state \<Rightarrow> bool" where
  "keys_plain s \<longleftrightarrow> (\<forall>k \<in> dom (pending_requests s). CHR ''<'' \<notin> set k)"

section \<open>A sample server\<close>

text \<open>
  A small pages directory and environment, used to run the definitions on concrete
  requests: two files, a requester whose identity is always recalled, a fixed time stamp.
\<close>

definition example_pages :: directory where
  "example_pages =
     [(''about.html'', RegularFile ''<h1>About</h1>'' (Some ''<h1>About</h1>'')),
      (''notes.xyz'', RegularFile ''data'' (Some ''data''))]"

definition example_env :: server_env where
  "example_env =
     \<lparr>pages_path = example_pages,
      identity_known = (\<lambda>dest_hash t. True),
      strftime_now = (\<lambda>t. ''2025-01-01 00:00:00''),
      log_writable = True,
      generate_dynamic_index = ''<html>index</html>'',
      generate_text_index = ''text index'',
      size_str = (\<lambda>n. str_nat n @ '' bytes''),
      file_icon = (\<lambda>filename. []),
      left_arrow_char = ''<-''\<rparr>"

definition unreachable_env :: server_env where
  "unreachable_env = example_env\<lparr>identity_known := (\<lambda>dest_hash t. False)\<rparr>"

definition initial_state :: server_state where
  "initial_state =
     \<lparr>requests_served = 0, access_log = [], outbox = [], path_requests = [], clock = 0\<rparr>"

section \<open>A sample client\<close>

text \<open>
  A client that has just started, with its own destination hash \<open>me\<close>; an environment in
  which every identity is recalled at once and the display name is the announced data
  itself, and one in which no identity is ever recalled.
\<close>

definition example_client :: browser_env where
  "example_client =
     \<lparr>identity_recalled = (\<lambda>dest_hash t. True),
      time_time = (\<lambda>t. 1700000000000 + t),
      display_name_from_app_data = (\<lambda>app_data. Some app_data),
      format_size = (\<lambda>n. str_nat n @ '' bytes'')\<rparr>"

definition offline_client :: browser_env where
  "offline_client = example_client\<lparr>identity_recalled := (\<lambda>dest_hash t. False)\<rparr>"

definition fresh_browser :: browser_state where
  "fresh_browser =
     \<lparr>bookmarks = [], history = [], discovered_servers = Map.empty, known_peers = {},
      pending_requests = Map.empty, html_cache = Map.empty, file_cache = Map.empty,
      lxmf_destination = Some ''me'', socketio = True, emitted = [], sent = [],
      announces = 0, requested_paths = [], slept = 0\<rparr>"

section \<open>Properties of the string operations\<close>

lemma split_first_char:
  "split_first [c] s =
     (if c \<in> set s then Some (takeWhile (\<lambda>x. x \<noteq> c) s, tl (dropWhile (\<lambda>x. x \<noteq> c) s)) else None)"
  by (induction s) auto

lemma py_in_char: "py_in [c] s \<longleftrightarrow> c \<in> set s"
  by (simp add: py_in_def split_first_char)

lemma hd_py_split_char: "hd (py_split [c] s) = takeWhile (\<lambda>x. x \<noteq> c) s"
proof (cases "c \<in> set s")
  case True
  then show ?thesis by (subst py_split.simps) (simp add: split_first_char)
next
  case False
  then have tw: "takeWhile (\<lambda>x. x \<noteq> c) s = s" by (induction s) auto
  show ?thesis by (subst py_split.simps) (simp add: split_first_char False tw)
qed

lemma startswith_char: "startswith s [c] \<longleftrightarrow> s \<noteq> [] \<and> hd s = c"
  by (cases s) (auto simp: startswith_def)

lemma py_strip_spaces_append:
  "\<forall>x\<in>set ws. py_isspace x \<Longrightarrow> py_strip (ws @ u) = py_strip u"
  by (simp add: py_strip_def dropWhile_append)

lemma set_dropWhile_keep:
  "\<not> P c \<Longrightarrow> c \<in> set (dropWhile P d) \<longleftrightarrow> c \<in> set d"
  by (induction d) auto

lemma set_py_strip_nonspace:
  "\<not> py_isspace c \<Longrightarrow> c \<in> set (py_strip d) \<longleftrightarrow> c \<in> set d"
  by (simp add: py_strip_def set_dropWhile_keep)

lemma takeWhile_rev_dropWhile_rev:
  assumes "\<not> P c" "c \<in> set d"
  shows "takeWhile (\<lambda>x. x \<noteq> c) (rev (dropWhile P (rev d))) = takeWhile (\<lambda>x. x \<noteq> c) d"
proof -
  from assms(2) obtain u v where d: "d = u @ c # v" and u: "c \<notin> set u"
    using split_list_first [of c d] by blast
  have "dropWhile P (rev d) = dropWhile P (rev v) @ c # rev u \<or> dropWhile P (rev d) = c # rev u"
    using assms(1) by (auto simp: d dropWhile_append)
  then obtain w where "rev (dropWhile P (rev d)) = u @ c # w"
    by (auto simp: rev_swap [symmetric])
  with u d show ?thesis by (simp add: takeWhile_append)
qed

lemma takeWhile_paren_strip:
  assumes "\<not> py_isspace c" "c \<in> set d"
  shows "py_strip (takeWhile (\<lambda>x. x \<noteq> c) (py_strip d)) = py_strip (takeWhile (\<lambda>x. x \<noteq> c) d)"
proof -
  define d' where "d' = dropWhile py_isspace d"
  define ws where "ws = takeWhile py_isspace d"
  have c': "c \<in> set d'" using assms by (simp add: set_dropWhile_keep d'_def)
  have a: "takeWhile (\<lambda>x. x \<noteq> c) (py_strip d) = takeWhile (\<lambda>x. x \<noteq> c) d'"
    unfolding py_strip_def d'_def [symmetric]
    using takeWhile_rev_dropWhile_rev [of py_isspace c d'] assms(1) c' by blast
  have ws: "\<forall>x\<in>set ws. py_isspace x \<and> x \<noteq> c"
    using assms(1) by (auto simp: ws_def dest: set_takeWhileD)
  have "d = ws @ d'" unfolding ws_def d'_def by (rule takeWhile_dropWhile_id [symmetric])
  then have b: "takeWhile (\<lambda>x. x \<noteq> c) d = ws @ takeWhile (\<lambda>x. x \<noteq> c) d'"
    using ws by (simp add: takeWhile_append)
  have "py_strip (ws @ takeWhile (\<lambda>x. x \<noteq> c) d') = py_strip (takeWhile (\<lambda>x. x \<noteq> c) d')"
    using ws by (intro py_strip_spaces_append) blast
  then show ?thesis by (simp only: a b)
qed

subsection \<open>Replacing and counting\<close>















section \<open>Properties of the server operations\<close>

lemma takeWhile_neq_all: "c \<notin> set xs \<Longrightarrow> takeWhile (\<lambda>x. x \<noteq> c) xs = xs"
  by (induction xs) auto

lemma length_takeWhile_neq_less:
  "c \<in> set xs \<Longrightarrow> length (takeWhile (\<lambda>x. x \<noteq> c) xs) < length xs"
  by (induction xs) auto

lemma basename_alt: "basename p = rev (takeWhile (\<lambda>x. x \<noteq> CHR ''/'') (rev p))"
proof (cases "CHR ''/'' \<in> set p")
  case False
  then have tw: "takeWhile (\<lambda>x. x \<noteq> CHR ''/'') (rev p) = rev p"
    by (simp add: takeWhile_neq_all)
  show ?thesis by (simp add: basename_def py_rfind_def False tw)
next
  case True
  define k where "k = length (takeWhile (\<lambda>x. x \<noteq> CHR ''/'') (rev p))"
  have "k < length p"
    using True length_takeWhile_neq_less [of "CHR ''/''" "rev p"]
    by (simp add: k_def)
  then have "nat (py_rfind p CHR ''/'' + 1) = length p - k"
    using True by (simp add: py_rfind_def k_def)
  then have "basename p = drop (length p - k) p"
    by (simp only: basename_def Let_def)
  also have "\<dots> = rev (take k (rev p))" by (simp add: take_rev)
  also have "take k (rev p) = takeWhile (\<lambda>x. x \<noteq> CHR ''/'') (rev p)"
    unfolding k_def
    using append_eq_conv_conj [of "takeWhile (\<lambda>x. x \<noteq> CHR ''/'') (rev p)"
        "dropWhile (\<lambda>x. x \<noteq> CHR ''/'') (rev p)" "rev p"]
    by simp
  finally show ?thesis .
qed

lemma basename_no_sep: "CHR ''/'' \<notin> set (basename p)"
  by (auto simp: basename_alt dest: set_takeWhileD)

lemma basename_idem: "basename (basename p) = basename p"
proof -
  have tw: "takeWhile (\<lambda>x. x \<noteq> CHR ''/'') (rev (basename p)) = rev (basename p)"
    by (rule takeWhile_neq_all) (simp add: basename_no_sep)
  show ?thesis by (subst basename_alt) (simp only: tw rev_rev_ident)
qed

lemma wait_loop_keeps:
  "outbox (snd (wait_loop env d w s)) = outbox s \<and>
   access_log (snd (wait_loop env d w s)) = access_log s \<and>
   requests_served (snd (wait_loop env d w s)) = requests_served s"
proof (induction env d w s rule: wait_loop.induct)
  case (1 env d w s)
  show ?case
  proof (cases "w < max_wait")
    case False
    then have "wait_loop env d w s = (False, s)" by (subst wait_loop.simps) simp
    then show ?thesis by simp
  next
    case True
    define s' where "s' = s\<lparr>clock := clock s + wait_interval\<rparr>"
    show ?thesis
    proof (cases "identity_known env d (clock s')")
      case known: True
      with True have "wait_loop env d w s = (True, s')"
        by (subst wait_loop.simps) (simp add: Let_def s'_def)
      then show ?thesis by (simp add: s'_def)
    next
      case unknown: False
      have step: "wait_loop env d w s = wait_loop env d (w + wait_interval) s'"
        using True unknown by (subst wait_loop.simps) (simp add: Let_def s'_def)
      from "1.IH" [OF True s'_def refl] unknown
      show ?thesis by (simp add: step s'_def)
    qed
  qed
qed

lemma await_identity_keeps:
  "outbox (snd (await_identity env d s)) = outbox s"
  "access_log (snd (await_identity env d s)) = access_log s"
  "requests_served (snd (await_identity env d s)) = requests_served s"
  by (simp_all add: await_identity_def wait_loop_keeps)

lemma send_html_effect:
  "outbox (snd (send_html env s d h t)) =
     outbox s @ (if fst (await_identity env d s) then [html_message d h t] else [])"
  "access_log (snd (send_html env s d h t)) = access_log s"
  "requests_served (snd (send_html env s d h t)) = requests_served s"
  "fst (send_html env s d h t) = fst (await_identity env d s)"
  using await_identity_keeps [of env d s]
  by (auto simp: send_html_def split: prod.splits bool.splits)



lemma log_access_effect:
  "outbox (log_access env s d p ok) = outbox s"
  "requests_served (log_access env s d p ok) = requests_served s"
  "clock (log_access env s d p ok) = clock s"
  "access_log (log_access env s d p ok) =
     access_log s @ (if log_writable env then [log_entry (strftime_now env (clock s)) d p ok] else [])"
  by (simp_all add: log_access_def Let_def)

lemma serve_page_basename: "serve_page env s sender (basename P) = serve_page env s sender P"
  by (simp add: serve_page_def basename_idem)

lemma serve_page_missing:
  assumes "\<not> is_index_request (basename P)" "dir_entry (pages_path env) (basename P) = None"
  shows "serve_page env s sender P =
     (False, log_access env
        (snd (send_html env s sender (error_html (left_arrow_char env) (basename P))
               (''404: '' @ basename P))) sender (basename P) False)"
  using assms by (simp add: serve_page_def Let_def)







subsection \<open>The sample server\<close>

lemma basename_ex: "basename ''../secret.txt'' = ''secret.txt''"
  by (simp add: basename_alt)

lemma await_example: "await_identity example_env d s = (True, s)"
  by (simp add: await_identity_def example_env_def)









subsection \<open>Waiting for an identity\<close>

lemma wait_loop_time:
  assumes "w \<le> max_wait" "wait_interval dvd (max_wait - w)"
  shows "path_requests (snd (wait_loop env d w s)) = path_requests s \<and>
         clock (snd (wait_loop env d w s)) \<le> clock s + (max_wait - w) \<and>
         (\<not> fst (wait_loop env d w s) \<longrightarrow>
            clock (snd (wait_loop env d w s)) = clock s + (max_wait - w)) \<and>
         (fst (wait_loop env d w s) \<longrightarrow>
            identity_known env d (clock (snd (wait_loop env d w s))))"
  using assms
proof (induction env d w s rule: wait_loop.induct)
  case (1 env d w s)
  show ?case
  proof (cases "w < max_wait")
    case False
    with "1.prems" have "w = max_wait" by simp
    moreover from False have "wait_loop env d w s = (False, s)"
      by (subst wait_loop.simps) simp
    ultimately show ?thesis by simp
  next
    case True
    define s' where "s' = s\<lparr>clock := clock s + wait_interval\<rparr>"
    from True "1.prems" have next_ok: "w + wait_interval \<le> max_wait"
      "wait_interval dvd (max_wait - (w + wait_interval))"
      unfolding max_wait_def wait_interval_def by presburger+
    show ?thesis
    proof (cases "identity_known env d (clock s')")
      case known: True
      with True have "wait_loop env d w s = (True, s')"
        by (subst wait_loop.simps) (simp add: Let_def s'_def)
      with known next_ok show ?thesis by (simp add: s'_def)
    next
      case unknown: False
      have step: "wait_loop env d w s = wait_loop env d (w + wait_interval) s'"
        using True unknown by (subst wait_loop.simps) (simp add: Let_def s'_def)
      from "1.IH" [OF True s'_def refl unknown next_ok] next_ok
      show ?thesis by (simp add: step s'_def)
    qed
  qed
qed

lemma await_identity_time:
  assumes "\<not> identity_known env d (clock s)"
  shows "path_requests (snd (await_identity env d s)) = path_requests s @ [d]"
    and "clock (snd (await_identity env d s)) \<le> clock s + 15000"
    and "\<not> fst (await_identity env d s) \<Longrightarrow> clock (snd (await_identity env d s)) = clock s + 15000"
    and "fst (await_identity env d s) \<Longrightarrow> identity_known env d (clock (snd (await_identity env d s)))"
  using assms
    wait_loop_time [of 0 env d "s\<lparr>path_requests := path_requests s @ [d]\<rparr>"]
  by (simp_all add: await_identity_def max_wait_def wait_interval_def)

lemma send_html_state:
  "snd (send_html env s d h t) =
     (if fst (await_identity env d s)
      then (snd (await_identity env d s))
             \<lparr>outbox := outbox (snd (await_identity env d s)) @ [html_message d h t]\<rparr>
      else snd (await_identity env d s))"
  by (auto simp: send_html_def split: prod.splits bool.splits)

lemma send_file_state:
  "snd (send_file env s d f) =
     (if fst (await_identity env d s) then
        (case read_bytes (dir_entry (pages_path env) f) of
           Some b \<Rightarrow>
             (snd (await_identity env d s))
               \<lparr>outbox := outbox (snd (await_identity env d s)) @
                  [file_message d f b (size_str env (length b))]\<rparr>
         | None \<Rightarrow> snd (await_identity env d s))
      else snd (await_identity env d s))"
  "fst (send_file env s d f) \<longleftrightarrow>
     fst (await_identity env d s) \<and> read_bytes (dir_entry (pages_path env) f) \<noteq> None"
  by (auto simp: send_file_def split: prod.splits bool.splits option.splits)

lemma unreachable_never: "\<not> identity_known unreachable_env d t"
  by (simp add: unreachable_env_def)

lemma unreachable_notes:
  "read_bytes (dir_entry (pages_path unreachable_env) ''notes.xyz'') = Some ''data''"
  by (simp add: unreachable_env_def example_env_def example_pages_def dir_entry_def read_bytes_def)

section \<open>Properties of the client operations\<close>

lemma save_data_keeps:
  "bookmarks (save_data s) = bookmarks s"
  "pending_requests (save_data s) = pending_requests s"
  "discovered_servers (save_data s) = discovered_servers s"
  "known_peers (save_data s) = known_peers s"
  "socketio (save_data s) = socketio s"
  "slept (save_data s) = slept s"
  "html_cache (save_data s) = html_cache s"
  by (simp_all add: save_data_def)

lemma fresh_started: "started fresh_browser"
  by (simp add: started_def fresh_browser_def)

lemma py_in_Nil: "py_in x [] \<longleftrightarrow> x = []"
  by (simp add: py_in_def)

lemma node_examples:
  "py_in ''HTML'' ''[HTML] Node''"
  "py_strip (py_replace ''[HTML]'' [] ''[HTML] Node'') = ''Node''"
  "prettyhexrep ''sv'' = ''<7376>''"
  "py_in ''HTML'' ''LXMF HTML Browser''"
  by code_simp+

lemma example_client_decodes: "display_name_from_app_data example_client d = Some d"
  by (simp add: example_client_def)

subsection \<open>The keys of the pending map\<close>

lemma py_replace_char_nil: "py_replace [c] [] s = filter (\<lambda>x. x \<noteq> c) s"
proof (induction "[c]" "[] :: 'a list" s rule: py_replace.induct)
  case (1 s)
  show ?case
  proof (cases "c \<in> set s")
    case False
    then have "filter (\<lambda>x. x \<noteq> c) s = s" by (induction s) auto
    with False show ?thesis
      by (subst py_replace.simps) (simp add: split_first_char)
  next
    case True
    define a where "a = takeWhile (\<lambda>x. x \<noteq> c) s"
    define b where "b = tl (dropWhile (\<lambda>x. x \<noteq> c) s)"
    have sf: "split_first [c] s = Some (a, b)"
      using True by (simp add: split_first_char a_def b_def)
    have "dropWhile (\<lambda>x. x \<noteq> c) s \<noteq> []" using True by simp
    then have "hd (dropWhile (\<lambda>x. x \<noteq> c) s) = c"
      using hd_dropWhile [of "\<lambda>x. x \<noteq> c" s] by simp
    with \<open>dropWhile (\<lambda>x. x \<noteq> c) s \<noteq> []\<close> have "dropWhile (\<lambda>x. x \<noteq> c) s = c # b"
      by (cases "dropWhile (\<lambda>x. x \<noteq> c) s") (auto simp: b_def)
    then have s: "s = a @ c # b"
      using takeWhile_dropWhile_id [of "\<lambda>x. x \<noteq> c" s] by (simp add: a_def)
    have fa: "filter (\<lambda>x. x \<noteq> c) a = a"
      by (auto simp: a_def filter_id_conv dest: set_takeWhileD)
    have "py_replace [c] [] s = a @ py_replace [c] [] b"
      by (subst py_replace.simps) (simp add: sf)
    also have "py_replace [c] [] b = filter (\<lambda>x. x \<noteq> c) b"
      using "1.hyps" [OF _ sf refl] by simp
    finally show ?thesis by (subst (2) s) (simp add: fa)
  qed
qed

lemma fromhex_chars:
  "fromhex s = Some b \<Longrightarrow> c \<in> set s \<Longrightarrow> ascii_space c \<or> hex_value c \<noteq> None"
  by (induction s arbitrary: b rule: fromhex.induct)
     (auto split: if_splits option.splits)

lemma angle_not_hex: "\<not> ascii_space CHR ''<''" "hex_value CHR ''<'' = None"
  by (simp_all add: ascii_space_def hex_value_def)

lemma fromhex_no_angle:
  assumes "fromhex (py_replace '':'' [] k) = Some b"
  shows "CHR ''<'' \<notin> set k"
proof
  assume "CHR ''<'' \<in> set k"
  then have "CHR ''<'' \<in> set (py_replace '':'' [] k)"
    by (simp add: py_replace_char_nil)
  from fromhex_chars [OF assms this] show False
    by (simp add: angle_not_hex)
qed


lemma prettyhexrep_angle: "CHR ''<'' \<in> set (prettyhexrep h)"
  by (simp add: prettyhexrep_def)

lemma keys_plain_not_pending:
  "keys_plain s \<Longrightarrow> pending_requests s (prettyhexrep h) = None"
  using prettyhexrep_angle [of h] by (auto simp: keys_plain_def)

lemma save_attachments_pending:
  "pending_requests (save_attachments env h n s fs) = pending_requests s"
  by (induction env h n s fs rule: save_attachments.induct)
     (simp_all add: Let_def save_data_keeps)

lemma handle_message_pending:
  assumes "keys_plain s"
  shows "pending_requests (handle_message env s m) = pending_requests s"
proof -
  have np: "pending_requests s (prettyhexrep (in_source_hash m)) = None"
    by (rule keys_plain_not_pending [OF assms])
  show ?thesis
    by (simp add: handle_message_def Let_def np save_html_file_def save_data_keeps
        save_attachments_pending split: option.splits field_value.splits)
qed

lemma request_page_pending:
  "pending_requests (snd (request_page env s h p)) =
     (case fromhex (py_replace '':'' [] (fst (normalize_request h p))) of
        None \<Rightarrow> pending_requests s
      | Some dest_hash \<Rightarrow>
          (pending_requests s)(fst (normalize_request h p) \<mapsto>
             \<lparr>req_kind = PageRequest (snd (normalize_request h p)),
              req_time = time_time env (slept s)\<rparr>))"
  by (simp add: request_page_def Let_def split: prod.splits option.splits)

lemma request_page_list_pending:
  "pending_requests (request_page_list env s h) = pending_requests s \<or>
   (\<exists>k b r. fromhex (py_replace '':'' [] k) = Some b \<and>
      pending_requests (request_page_list env s h) = (pending_requests s)(k \<mapsto> r))"
  by (auto simp add: request_page_list_def Let_def split: option.splits)

lemma keys_plain_update:
  "keys_plain s \<Longrightarrow> CHR ''<'' \<notin> set k \<Longrightarrow> pending_requests s' = (pending_requests s)(k \<mapsto> r)
    \<Longrightarrow> keys_plain s'"
  by (auto simp: keys_plain_def split: if_splits)

lemma keys_plain_same:
  "keys_plain s \<Longrightarrow> pending_requests s' = pending_requests s \<Longrightarrow> keys_plain s'"
  by (simp add: keys_plain_def)

lemma handle_discovery_pending:
  "pending_requests (handle_discovery env s p n) = pending_requests s"
  by (simp add: handle_discovery_def Let_def save_data_keeps split: option.splits)

lemma received_announce_pending:
  "pending_requests (received_announce env s d a) = pending_requests s"
  by (simp add: received_announce_def handle_discovery_pending split: option.splits prod.splits)

lemma reachable_keys_plain: "reachable env s \<Longrightarrow> keys_plain s"
proof (induction rule: reachable.induct)
  case (start s)
  then show ?case by (simp add: started_def keys_plain_def)
next
  case (announce s destination_hash app_data)
  from announce.IH show ?case by (rule keys_plain_same) (rule received_announce_pending)
next
  case (message s m)
  from message.IH show ?case
    by (rule keys_plain_same) (rule handle_message_pending [OF message.IH])
next
  case (page s server_hash page_name)
  show ?case
  proof (cases "fromhex (py_replace '':'' [] (fst (normalize_request server_hash page_name)))")
    case None
    show ?thesis
      by (rule keys_plain_same [OF page.IH]) (simp add: request_page_pending None)
  next
    case (Some b)
    show ?thesis
      by (rule keys_plain_update [OF page.IH fromhex_no_angle [OF Some]])
         (simp add: request_page_pending Some)
  qed
next
  case (page_list s server_hash)
  from request_page_list_pending [of env s server_hash] show ?case
  proof
    assume "pending_requests (request_page_list env s server_hash) = pending_requests s"
    with page_list.IH show ?thesis by (rule keys_plain_same)
  next
    assume "\<exists>k b r. fromhex (py_replace '':'' [] k) = Some b \<and>
      pending_requests (request_page_list env s server_hash) = (pending_requests s)(k \<mapsto> r)"
    then obtain k b r where "fromhex (py_replace '':'' [] k) = Some b"
      and "pending_requests (request_page_list env s server_hash) = (pending_requests s)(k \<mapsto> r)"
      by blast
    with page_list.IH fromhex_no_angle show ?thesis
      by (blast intro: keys_plain_update)
  qed
next
  case (bookmark_add s name hash)
  from bookmark_add.IH show ?case
    by (rule keys_plain_same) (simp add: add_bookmark_def Let_def save_data_keeps)
next
  case (bookmark_remove s hash)
  from bookmark_remove.IH show ?case
    by (rule keys_plain_same) (simp add: remove_bookmark_def save_data_keeps)
next
  case (history_clear s)
  from history_clear.IH show ?case
    by (rule keys_plain_same) (simp add: clear_history_def save_data_keeps)
next
  case (server_remove s server_hash)
  from server_remove.IH show ?case
    by (rule keys_plain_same) (simp add: remove_server_def save_data_keeps)
qed

lemma a1b2_examples:
  "normalize_request ''<a1b2>'' ''about.html'' = (''a1b2'', ''about.html'')"
  "fromhex (py_replace '':'' [] ''a1b2'') = Some [CHR 0xA1, CHR 0xB2]"
  "prettyhexrep [CHR 0xA1, CHR 0xB2] = ''<a1b2>''"
  by code_simp+

subsection \<open>The wait of a page request\<close>

lemma request_page_timing:
  assumes "fromhex (py_replace '':'' [] (fst (normalize_request sh p))) = Some dest"
    and "\<not> identity_recalled cenv dest (slept cs + 300)"
  shows "requested_paths (snd (request_page cenv cs sh p)) = requested_paths cs @ [dest]"
    and "slept (snd (request_page cenv cs sh p)) = slept cs + 2300"
    and "fst (request_page cenv cs sh p) \<longleftrightarrow> identity_recalled cenv dest (slept cs + 2300)"
proof -
  obtain k q where n: "normalize_request sh p = (k, q)" by (cases "normalize_request sh p")
  with assms(1) have f: "fromhex (py_replace '':'' [] k) = Some dest" by simp
  from assms(2) show "requested_paths (snd (request_page cenv cs sh p)) = requested_paths cs @ [dest]"
    by (simp add: request_page_def n f Let_def)
  from assms(2) show "slept (snd (request_page cenv cs sh p)) = slept cs + 2300"
    by (simp add: request_page_def n f Let_def)
  from assms(2) show "fst (request_page cenv cs sh p) \<longleftrightarrow> identity_recalled cenv dest (slept cs + 2300)"
    by (simp add: request_page_def n f Let_def add.commute)
qed

lemma offline_never: "\<not> identity_recalled offline_client d t"
  by (simp add: offline_client_def)

lemma plain_a1b2:
  "normalize_request ''a1b2'' ''index'' = (''a1b2'', ''index'')"
  by code_simp

subsection \<open>The interceptor script\<close>

lemma tags_nonempty: "''</head>'' \<noteq> ([] :: string)" "''</body>'' \<noteq> ([] :: string)"
  by simp_all



section \<open>The page-list parser meets its description\<close>

lemma not_space_paren: "\<not> py_isspace CHR ''(''"
  by (simp add: py_isspace_def)

lemma parse_line_spec:
  "parse_line pages l =
     pages @ (case spec_page_name l of None \<Rightarrow> [] | Some n \<Rightarrow> if n \<noteq> [] then [n] else [])"
proof -
  define t where "t = py_strip l"
  define d where "d = tl (dropWhile (\<lambda>c. c \<noteq> CHR '']'') t)"
  define shape where "shape \<longleftrightarrow> t \<noteq> [] \<and> hd t = CHR ''['' \<and> CHR '']'' \<in> set t"
  have code_shape: "(startswith t ''['' \<and> py_in '']'' t) = shape"
    by (auto simp: startswith_char py_in_char shape_def)
  have lhs: "parse_line pages l =
      (if shape then
        let parts = py_split1 '']'' t in
        if length parts > 1 then
          let page_info = py_strip (parts ! 1) in
          if py_in ''('' page_info then
            let page_name = py_strip (hd (py_split ''('' page_info)) in
            if page_name \<noteq> [] then pages @ [page_name] else pages
          else pages
        else pages
      else pages)"
    unfolding parse_line_def t_def [symmetric] Let_def code_shape ..
  have rhs: "spec_page_name l =
      (if shape then
        if CHR ''('' \<in> set d
        then Some (py_strip (takeWhile (\<lambda>c. c \<noteq> CHR ''('') d))
        else None
      else None)"
    unfolding spec_page_name_def t_def [symmetric] Let_def d_def [symmetric] shape_def ..
  show ?thesis
  proof (cases shape)
    case False
    then show ?thesis by (simp add: lhs rhs)
  next
    case True
    then have "CHR '']'' \<in> set t" by (simp add: shape_def)
    then have parts: "py_split1 '']'' t = [takeWhile (\<lambda>c. c \<noteq> CHR '']'') t, d]"
      by (simp add: py_split1_def split_first_char d_def)
    show ?thesis
    proof (cases "CHR ''('' \<in> set d")
      case False
      then show ?thesis
        by (simp add: lhs rhs True parts py_in_char set_py_strip_nonspace not_space_paren)
    next
      case paren: True
      then show ?thesis
        by (simp add: lhs rhs True parts py_in_char set_py_strip_nonspace not_space_paren
            hd_py_split_char takeWhile_paren_strip)
    qed
  qed
qed

lemma parse_lines_spec:
  "parse_lines pages ls =
     pages @ filter (\<lambda>n. n \<noteq> []) (List.map_filter spec_page_name ls)"
  by (induction ls arbitrary: pages)
     (auto simp: parse_line_spec List.map_filter_simps split: option.splits)

text \<open>
  Claim C7. For every input text, \<open>_parse_page_list\<close> returns exactly the non-empty page
  names that the recognition rule of section 4.5 yields, line by line and in encounter
  order; a line that does not have the shape contributes nothing.
\<close>

theorem parse_page_list_refines_spec:
  "parse_page_list text = spec_page_names text"
  by (simp add: parse_page_list_def spec_page_names_def parse_lines_spec)


section \<open>Requests for missing files\<close>

text \<open>
  Claim C1 (as amended). The request is always reduced to \<open>basename(P)\<close>, which contains no
  \<open>/\<close>, before lookup. When that name is not an index name and names nothing in the pages
  directory, the serve operation returns failure and hands over exactly one message, the 404
  page with body text \<open>404: basename(P)\<close>, provided the identity of the requester can be
  obtained; otherwise it sends nothing.
\<close>

theorem serve_page_basename_404:
  "serve_page env s sender P = serve_page env s sender (basename P) \<and>
   CHR ''/'' \<notin> set (basename P) \<and>
   (\<not> is_index_request (basename P) \<and> dir_entry (pages_path env) (basename P) = None \<longrightarrow>
      fst (serve_page env s sender P) = False \<and>
      outbox (snd (serve_page env s sender P)) =
        outbox s @
        (if fst (await_identity env sender s)
         then [html_message sender (error_html (left_arrow_char env) (basename P))
                 (''404: '' @ basename P)]
         else []))"
  by (simp add: serve_page_basename basename_no_sep serve_page_missing log_access_effect
      send_html_effect)

text \<open>The theorem at the request \<open>../secret.txt\<close>.\<close>

theorem serve_page_basename_404_witness:
  "\<not> is_index_request (basename ''../secret.txt'') \<and>
   dir_entry (pages_path example_env) (basename ''../secret.txt'') = None \<and>
   fst (serve_page example_env initial_state ''c'' ''../secret.txt'') = False \<and>
   outbox (snd (serve_page example_env initial_state ''c'' ''../secret.txt'')) =
     [html_message ''c'' (error_html ''<-'' ''secret.txt'') ''404: secret.txt'']"
proof -
  have a: "\<not> is_index_request (basename ''../secret.txt'')"
    by (simp add: basename_ex is_index_request_def index_names_def py_lower_def py_lower_char_def)
  have b: "dir_entry (pages_path example_env) (basename ''../secret.txt'') = None"
    by (simp add: basename_ex dir_entry_def example_env_def example_pages_def)
  have c: "left_arrow_char example_env = ''<-''" "outbox initial_state = []"
    by (simp_all add: example_env_def initial_state_def)
  from a b serve_page_basename_404 [of example_env initial_state "''c''" "''../secret.txt''"]
  have "fst (serve_page example_env initial_state ''c'' ''../secret.txt'') = False \<and>
      outbox (snd (serve_page example_env initial_state ''c'' ''../secret.txt'')) =
        outbox initial_state @
        (if fst (await_identity example_env ''c'' initial_state)
         then [html_message ''c'' (error_html (left_arrow_char example_env)
                 (basename ''../secret.txt'')) (''404: '' @ basename ''../secret.txt'')]
         else [])"
    by blast
  with a b show ?thesis
    by (simp only: basename_ex await_example c fst_conv if_True append_Nil append_Cons simp_thms)
qed

text \<open>
  The claim as it was written fails: the missing name \<open>list\<close> is answered with the index,
  and the body text for \<open>../secret.txt\<close> names \<open>secret.txt\<close>.
\<close>

theorem serve_page_not_404_counterexample:
  "dir_entry (pages_path example_env) (basename ''list'') = None \<and>
   map msg_content (outbox (snd (serve_page example_env initial_state ''c'' ''list''))) =
     [''File Index'', ''text index''] \<and>
   dir_entry (pages_path example_env) (basename ''../secret.txt'') = None \<and>
   map msg_content (outbox (snd (serve_page example_env initial_state ''c'' ''../secret.txt''))) =
     [''404: secret.txt'']"
proof -
  have idx: "is_index_request (basename ''list'')"
    by (simp add: basename_alt is_index_request_def index_names_def py_lower_def py_lower_char_def)
  have 1: "dir_entry (pages_path example_env) (basename ''list'') = None"
    by (simp add: basename_alt dir_entry_def example_env_def example_pages_def)
  have 2: "map msg_content (outbox (snd (serve_page example_env initial_state ''c'' ''list''))) =
     [''File Index'', ''text index'']"
    using idx
    by (simp add: serve_page_def Let_def log_access_effect send_html_effect await_example
        send_simple_message_def html_message_def plain_message_def)
       (simp add: example_env_def initial_state_def)
  have a: "\<not> is_index_request (basename ''../secret.txt'')"
    by (simp add: basename_ex is_index_request_def index_names_def py_lower_def py_lower_char_def)
  have 3: "dir_entry (pages_path example_env) (basename ''../secret.txt'') = None"
    by (simp add: basename_ex dir_entry_def example_env_def example_pages_def)
  have 4: "map msg_content (outbox (snd (serve_page example_env initial_state ''c'' ''../secret.txt''))) =
     [''404: secret.txt'']"
    using a 3
    by (simp add: serve_page_missing log_access_effect send_html_effect await_example
        html_message_def basename_ex initial_state_def)
  from 1 2 3 4 show ?thesis by blast
qed

section \<open>The page listing\<close>

lemma collect_files_filter:
  "collect_files files names =
     files @ filter (\<lambda>f. ext_supported (py_lower (snd (splitext f)))) names"
  by (induction names arbitrary: files) (simp_all add: Let_def)

lemma ext_supported_iff:
  "ext_supported ext \<longleftrightarrow> ext \<in> fst ` set supported_extensions"
  by (simp add: ext_supported_def map_of_eq_None_iff)

text \<open>
  Claim C8. For every pages directory, \<open>_get_page_list\<close> returns a list that is sorted
  (lexicographically, by code point) and holds exactly the directory entries whose lower-cased
  extension is a key of the supported-extension table, each as often as the directory lists it.
\<close>

theorem get_page_list_sorted_exact:
  "sorted (get_page_list d) \<and>
   mset (get_page_list d) =
     filter_mset (\<lambda>f. py_lower (snd (splitext f)) \<in> fst ` set supported_extensions)
       (mset (listdir d))"
  by (simp add: get_page_list_def collect_files_filter ext_supported_iff)

section \<open>Pending requests\<close>

text \<open>
  Claim C3 (the code departs from it). A request for a peer is recorded under the peer's hash without
  angle brackets, replacing an entry under that key. An inbound message is looked up under
  \<open>RNS.prettyhexrep\<close> of its source, which carries angle brackets, so in every reachable state
  no inbound message, whatever its shape, changes the pending map: the entry that the request
  operation recorded is not cleared.
\<close>

theorem pending_never_cleared:
  "(fromhex (py_replace '':'' [] (fst (normalize_request h p))) \<noteq> None \<longrightarrow>
      pending_requests (snd (request_page env s h p)) =
        (pending_requests s)(fst (normalize_request h p) \<mapsto>
           \<lparr>req_kind = PageRequest (snd (normalize_request h p)),
            req_time = time_time env (slept s)\<rparr>)) \<and>
   (reachable env s \<longrightarrow> pending_requests (handle_message env s m) = pending_requests s)"
  by (auto simp: request_page_pending handle_message_pending reachable_keys_plain)

text \<open>
  The theorem at a request for \<open><a1b2>\<close> followed by the page response of that peer: the
  entry is still pending.
\<close>

theorem pending_never_cleared_witness:
  "reachable example_client (snd (request_page example_client fresh_browser ''<a1b2>'' ''about.html'')) \<and>
   prettyhexrep [CHR 0xA1, CHR 0xB2] = ''<a1b2>'' \<and>
   map_option req_kind
     (pending_requests
        (handle_message example_client
           (snd (request_page example_client fresh_browser ''<a1b2>'' ''about.html''))
           \<lparr>in_source_hash = [CHR 0xA1, CHR 0xB2], in_content = ''Serving: about.html'',
            in_fields = [(FIELD_HTML_CONTENT, FieldText ''<html></html>'')]\<rparr>)
        ''a1b2'') = Some (PageRequest ''about.html'')"
proof -
  let ?s = "snd (request_page example_client fresh_browser ''<a1b2>'' ''about.html'')"
  let ?m = "\<lparr>in_source_hash = [CHR 0xA1, CHR 0xB2], in_content = ''Serving: about.html'',
            in_fields = [(FIELD_HTML_CONTENT, FieldText ''<html></html>'')]\<rparr>"
  have r: "reachable example_client ?s"
    by (intro reachable.page reachable.start fresh_started)
  have ok: "fromhex (py_replace '':'' [] (fst (normalize_request ''<a1b2>'' ''about.html''))) \<noteq> None"
    by (simp add: a1b2_examples)
  from pending_never_cleared [where h = "''<a1b2>''" and p = "''about.html''"
      and env = example_client and s = fresh_browser] ok
  have 1: "pending_requests ?s =
      (pending_requests fresh_browser)(fst (normalize_request ''<a1b2>'' ''about.html'') \<mapsto>
           \<lparr>req_kind = PageRequest (snd (normalize_request ''<a1b2>'' ''about.html'')),
            req_time = time_time example_client (slept fresh_browser)\<rparr>)"
    by blast
  from pending_never_cleared [where env = example_client and s = ?s and m = ?m] r
  have 2: "pending_requests (handle_message example_client ?s ?m) = pending_requests ?s"
    by blast
  from r show ?thesis by (simp add: 1 2 a1b2_examples)
qed

section \<open>Access log and request counter\<close>




section \<open>Recognising HTML servers\<close>

text \<open>
  Claim C5 (as amended). For every received announce whose destination is not the client's own, the
  announcer is recognised as an HTML server if and only if the display name decoded from its
  non-empty application data contains \<open>[HTML]\<close> or \<open>HTML\<close>. On recognition the discovery
  step runs on that name, and a peer that was not known is entered in the registry under the
  display name with \<open>[HTML]\<close> removed and white space trimmed, or under \<open>Unknown Server\<close> when
  that is empty.
\<close>

theorem announce_recognition:
  assumes "lxmf_destination s \<noteq> Some dest"
  shows "(announce_match env s dest app_data \<noteq> None \<longleftrightarrow>
            (\<exists>d dn. app_data = Some d \<and> d \<noteq> [] \<and> display_name_from_app_data env d = Some dn \<and>
                    (py_in ''[HTML]'' dn \<or> py_in ''HTML'' dn))) \<and>
         (\<forall>d dn. app_data = Some d \<and> d \<noteq> [] \<and> display_name_from_app_data env d = Some dn \<and>
                 (py_in ''[HTML]'' dn \<or> py_in ''HTML'' dn) \<longrightarrow>
            received_announce env s dest app_data = handle_discovery env s (prettyhexrep dest) dn \<and>
            (prettyhexrep dest \<notin> known_peers s \<longrightarrow>
               map_option info_name
                 (discovered_servers (received_announce env s dest app_data) (prettyhexrep dest)) =
               Some (if py_strip (py_replace ''[HTML]'' [] dn) = [] then ''Unknown Server''
                     else py_strip (py_replace ''[HTML]'' [] dn))))"
proof -
  have match: "announce_match env s dest app_data = Some (prettyhexrep dest, dn)"
    if "app_data = Some d" "d \<noteq> []" "display_name_from_app_data env d = Some dn"
      "py_in ''[HTML]'' dn \<or> py_in ''HTML'' dn" for d dn
  proof -
    from that(4) have "dn \<noteq> []" by (auto simp: py_in_Nil)
    with that assms show ?thesis by (simp add: announce_match_def Let_def)
  qed
  have iff: "announce_match env s dest app_data \<noteq> None \<longleftrightarrow>
            (\<exists>d dn. app_data = Some d \<and> d \<noteq> [] \<and> display_name_from_app_data env d = Some dn \<and>
                    (py_in ''[HTML]'' dn \<or> py_in ''HTML'' dn))"
  proof
    assume "announce_match env s dest app_data \<noteq> None"
    then show "\<exists>d dn. app_data = Some d \<and> d \<noteq> [] \<and>
        display_name_from_app_data env d = Some dn \<and> (py_in ''[HTML]'' dn \<or> py_in ''HTML'' dn)"
      by (simp add: announce_match_def Let_def split: option.splits if_splits)
  next
    assume "\<exists>d dn. app_data = Some d \<and> d \<noteq> [] \<and>
        display_name_from_app_data env d = Some dn \<and> (py_in ''[HTML]'' dn \<or> py_in ''HTML'' dn)"
    then obtain d dn where "app_data = Some d" "d \<noteq> []"
      "display_name_from_app_data env d = Some dn" "py_in ''[HTML]'' dn \<or> py_in ''HTML'' dn"
      by blast
    from match [OF this] show "announce_match env s dest app_data \<noteq> None" by simp
  qed
  have name: "map_option info_name
                 (discovered_servers (handle_discovery env s p dn) p) =
               Some (if py_strip (py_replace ''[HTML]'' [] dn) = [] then ''Unknown Server''
                     else py_strip (py_replace ''[HTML]'' [] dn))"
    if "p \<notin> known_peers s" for p dn
    using that
    by (simp add: handle_discovery_def presentation_name_def Let_def save_data_keeps)
  from iff match name show ?thesis
    by (simp add: received_announce_def)
qed

text \<open>The theorem at an announce of \<open>[HTML] Node\<close>.\<close>

theorem announce_recognition_witness:
  "lxmf_destination fresh_browser \<noteq> Some ''sv'' \<and>
   announce_match example_client fresh_browser ''sv'' (Some ''[HTML] Node'') \<noteq> None \<and>
   map_option info_name
     (discovered_servers (received_announce example_client fresh_browser ''sv'' (Some ''[HTML] Node''))
        ''<7376>'') = Some ''Node''"
proof -
  have a: "lxmf_destination fresh_browser \<noteq> Some ''sv''"
    by (simp add: fresh_browser_def)
  have b: "prettyhexrep ''sv'' \<notin> known_peers fresh_browser"
    by (simp add: fresh_browser_def)
  have c: "(''[HTML] Node'' :: string) \<noteq> []" by simp
  from announce_recognition [OF a, of example_client "Some ''[HTML] Node''"]
  have "announce_match example_client fresh_browser ''sv'' (Some ''[HTML] Node'') \<noteq> None"
    using example_client_decodes node_examples(1) c by blast
  moreover
  from announce_recognition [OF a, of example_client "Some ''[HTML] Node''"]
  have "prettyhexrep ''sv'' \<notin> known_peers fresh_browser \<longrightarrow>
      map_option info_name
        (discovered_servers (received_announce example_client fresh_browser ''sv'' (Some ''[HTML] Node''))
           (prettyhexrep ''sv'')) =
      Some (if py_strip (py_replace ''[HTML]'' [] ''[HTML] Node'') = [] then ''Unknown Server''
            else py_strip (py_replace ''[HTML]'' [] ''[HTML] Node''))"
    using example_client_decodes node_examples(1) c by blast
  ultimately show ?thesis
    using a b by (simp add: node_examples)
qed

text \<open>
  The claim as it was written fails: the client's own announce carries the name
  \<open>LXMF HTML Browser\<close>, which contains \<open>HTML\<close>, and is not recognised.
\<close>

theorem own_announce_counterexample:
  "display_name_from_app_data example_client ''LXMF HTML Browser'' = Some ''LXMF HTML Browser'' \<and>
   py_in ''HTML'' ''LXMF HTML Browser'' \<and>
   announce_match example_client fresh_browser ''me'' (Some ''LXMF HTML Browser'') = None"
  by (simp add: example_client_decodes node_examples announce_match_def fresh_browser_def)

section \<open>Waiting for a path\<close>

text \<open>
  Claim C6 (as amended). When the identity of the destination is not recalled, the server's
  \<open>_send_html\<close> and \<open>_send_file\<close> request a path and poll for the identity; they go on only
  with an identity, wait at most 15 s, and give up for want of an identity only when the full
  15 s have passed, sending nothing. The client's \<open>request_page\<close> requests a path, waits 2 s
  once, and returns failure when the identity is still not recalled then.
\<close>

theorem path_wait_bounds:
  "(\<not> identity_known env d (clock s) \<longrightarrow>
      path_requests (snd (send_html env s d h t)) = path_requests s @ [d] \<and>
      clock (snd (send_html env s d h t)) \<le> clock s + 15000 \<and>
      (fst (send_html env s d h t) \<longrightarrow>
         identity_known env d (clock (snd (send_html env s d h t)))) \<and>
      (\<not> fst (send_html env s d h t) \<longrightarrow>
         clock (snd (send_html env s d h t)) = clock s + 15000 \<and>
         outbox (snd (send_html env s d h t)) = outbox s)) \<and>
   (\<not> identity_known env d (clock s) \<longrightarrow>
      path_requests (snd (send_file env s d f)) = path_requests s @ [d] \<and>
      clock (snd (send_file env s d f)) \<le> clock s + 15000 \<and>
      (fst (send_file env s d f) \<longrightarrow>
         identity_known env d (clock (snd (send_file env s d f)))) \<and>
      (\<not> fst (send_file env s d f) \<and> read_bytes (dir_entry (pages_path env) f) \<noteq> None \<longrightarrow>
         clock (snd (send_file env s d f)) = clock s + 15000 \<and>
         outbox (snd (send_file env s d f)) = outbox s)) \<and>
   (fromhex (py_replace '':'' [] (fst (normalize_request sh p))) = Some dest \<and>
    \<not> identity_recalled cenv dest (slept cs + 300) \<longrightarrow>
      requested_paths (snd (request_page cenv cs sh p)) = requested_paths cs @ [dest] \<and>
      slept (snd (request_page cenv cs sh p)) = slept cs + 2300 \<and>
      (fst (request_page cenv cs sh p) \<longleftrightarrow> identity_recalled cenv dest (slept cs + 2300)))"
proof -
  have html: "path_requests (snd (send_html env s d h t)) = path_requests s @ [d] \<and>
      clock (snd (send_html env s d h t)) \<le> clock s + 15000 \<and>
      (fst (send_html env s d h t) \<longrightarrow>
         identity_known env d (clock (snd (send_html env s d h t)))) \<and>
      (\<not> fst (send_html env s d h t) \<longrightarrow>
         clock (snd (send_html env s d h t)) = clock s + 15000 \<and>
         outbox (snd (send_html env s d h t)) = outbox s)"
    if "\<not> identity_known env d (clock s)"
    using await_identity_time [OF that] await_identity_keeps(1) [of env d s]
    by (simp add: send_html_state send_html_effect(4))
  have attach: "path_requests (snd (send_file env s d f)) = path_requests s @ [d] \<and>
      clock (snd (send_file env s d f)) \<le> clock s + 15000 \<and>
      (fst (send_file env s d f) \<longrightarrow>
         identity_known env d (clock (snd (send_file env s d f)))) \<and>
      (\<not> fst (send_file env s d f) \<and> read_bytes (dir_entry (pages_path env) f) \<noteq> None \<longrightarrow>
         clock (snd (send_file env s d f)) = clock s + 15000 \<and>
         outbox (snd (send_file env s d f)) = outbox s)"
    if "\<not> identity_known env d (clock s)"
    using await_identity_time [OF that] await_identity_keeps(1) [of env d s]
    by (auto simp add: send_file_state split: option.splits)
  from html attach request_page_timing [of sh p dest cenv cs] show ?thesis
    by blast
qed

text \<open>
  The theorem for a requester and a server whose identities never become known: the server
  operations fail after 15000 ms, the client operation after 2300 ms (300 ms after its
  announce, 2000 ms after the path request).
\<close>

theorem path_wait_bounds_witness:
  "\<not> identity_known unreachable_env ''c'' (clock initial_state) \<and>
   \<not> fst (send_html unreachable_env initial_state ''c'' ''<p>hi</p>'' ''Serving: hi.html'') \<and>
   clock (snd (send_html unreachable_env initial_state ''c'' ''<p>hi</p>'' ''Serving: hi.html'')) = 15000 \<and>
   read_bytes (dir_entry (pages_path unreachable_env) ''notes.xyz'') \<noteq> None \<and>
   \<not> fst (send_file unreachable_env initial_state ''c'' ''notes.xyz'') \<and>
   clock (snd (send_file unreachable_env initial_state ''c'' ''notes.xyz'')) = 15000 \<and>
   fromhex (py_replace '':'' [] (fst (normalize_request ''a1b2'' ''index''))) =
     Some [CHR 0xA1, CHR 0xB2] \<and>
   \<not> identity_recalled offline_client [CHR 0xA1, CHR 0xB2] (slept fresh_browser + 300) \<and>
   \<not> fst (request_page offline_client fresh_browser ''a1b2'' ''index'') \<and>
   slept (snd (request_page offline_client fresh_browser ''a1b2'' ''index'')) = 2300"
proof -
  let ?h = "send_html unreachable_env initial_state ''c'' ''<p>hi</p>'' ''Serving: hi.html''"
  let ?f = "send_file unreachable_env initial_state ''c'' ''notes.xyz''"
  let ?r = "request_page offline_client fresh_browser ''a1b2'' ''index''"
  note inst = path_wait_bounds [where env = unreachable_env and s = initial_state and d = "''c''"
      and h = "''<p>hi</p>''" and t = "''Serving: hi.html''" and f = "''notes.xyz''"
      and sh = "''a1b2''" and p = "''index''" and dest = "[CHR 0xA1, CHR 0xB2]"
      and cenv = offline_client and cs = fresh_browser]
  have c0: "clock initial_state = 0" "slept fresh_browser = 0"
    by (simp_all add: initial_state_def fresh_browser_def)
  have fh: "fromhex (py_replace '':'' [] (fst (normalize_request ''a1b2'' ''index''))) =
     Some [CHR 0xA1, CHR 0xB2]"
    by (simp add: plain_a1b2 a1b2_examples)
  from inst unreachable_never have h1: "\<not> fst ?h" by blast
  from inst unreachable_never h1 have h2: "clock (snd ?h) = clock initial_state + 15000" by blast
  from inst unreachable_never have f1: "\<not> fst ?f" by blast
  from inst unreachable_never f1 unreachable_notes
  have f2: "clock (snd ?f) = clock initial_state + 15000" by simp
  from inst fh offline_never have r1: "\<not> fst ?r" by blast
  from inst fh offline_never have r2: "slept (snd ?r) = slept fresh_browser + 2300" by blast
  from h1 h2 f1 f2 r1 r2 fh show ?thesis
    by (simp add: unreachable_never offline_never unreachable_notes c0)
qed

text \<open>
  The claim as it was written fails for the client: \<open>request_page\<close> declares the
  destination unreachable 2 s after the path request.
\<close>

theorem request_page_short_wait_counterexample:
  "fst (request_page offline_client fresh_browser ''a1b2'' ''index'') = False \<and>
   requested_paths (snd (request_page offline_client fresh_browser ''a1b2'' ''index'')) =
     [[CHR 0xA1, CHR 0xB2]] \<and>
   slept (snd (request_page offline_client fresh_browser ''a1b2'' ''index'')) = 2300"
  by (simp add: request_page_def plain_a1b2 a1b2_examples Let_def offline_never)
     (simp add: fresh_browser_def)

section \<open>Injecting the link interceptor\<close>




section \<open>Bookmarks\<close>

text \<open>
  Claim C9 (as amended). Adding a bookmark appends one entry, whether or not its hash is already
  bookmarked, so the number of entries with that hash grows by one; removing a bookmark
  removes every entry with the given hash and no other entry.
\<close>

theorem add_bookmark_appends:
  "bookmarks (add_bookmark env s name h) =
     bookmarks s @ [\<lparr>bookmark_name = name, bookmark_hash = h,
                      bookmark_added = time_time env (slept s)\<rparr>] \<and>
   length (filter (\<lambda>b. bookmark_hash b = h) (bookmarks (add_bookmark env s name h))) =
     length (filter (\<lambda>b. bookmark_hash b = h) (bookmarks s)) + 1 \<and>
   filter (\<lambda>b. bookmark_hash b = h) (bookmarks (remove_bookmark s h)) = [] \<and>
   filter (\<lambda>b. bookmark_hash b \<noteq> h) (bookmarks (remove_bookmark s h)) =
     filter (\<lambda>b. bookmark_hash b \<noteq> h) (bookmarks s)"
  by (simp add: add_bookmark_def remove_bookmark_def save_data_keeps Let_def)

text \<open>
  The claim as it was written fails: adding two bookmarks for one hash to a client that has
  just started gives two entries with that hash.
\<close>

theorem add_bookmark_twice_counterexample:
  "reachable example_client
     (add_bookmark example_client (add_bookmark example_client fresh_browser ''A'' ''<a1b2>'')
        ''B'' ''<a1b2>'') \<and>
   map bookmark_hash (bookmarks
     (add_bookmark example_client (add_bookmark example_client fresh_browser ''A'' ''<a1b2>'')
        ''B'' ''<a1b2>'')) = [''<a1b2>'', ''<a1b2>'']"
proof -
  have "reachable example_client
     (add_bookmark example_client (add_bookmark example_client fresh_browser ''A'' ''<a1b2>'')
        ''B'' ''<a1b2>'')"
    by (intro reachable.bookmark_add reachable.start fresh_started)
  moreover have "bookmarks fresh_browser = []" by (simp add: fresh_browser_def)
  ultimately show ?thesis
    by (simp add: add_bookmark_def save_data_keeps Let_def)
qed

section \<open>404 exactly for missing files\<close>




end
